theory Spec2Isabelle
  imports Complex_Main "HOL-Library.Multiset"
begin

section \<open>Python values used by the market making controller\<close>

text \<open>
  The development embeds \<^verbatim>\<open>market_making_controller_base.py\<close>: the configuration class
  \<^verbatim>\<open>MarketMakingControllerConfigBase\<close> and the controller \<^verbatim>\<open>MarketMakingControllerBase\<close>.

  Python \<^verbatim>\<open>float\<close> and \<^verbatim>\<open>int\<close> values are embedded in \<^typ>\<open>real\<close> and \<^typ>\<open>int\<close>. Arithmetic is
  exact, except in the section on the root validator in float arithmetic, where every
  operation rounds to a double; infinities and NaN are outside the model. Strings are
  ASCII. An
  exception is a value of \<open>error\<close>; a function that can raise returns \<open>error + 'a\<close> with
  \<open>Inl\<close> for the exception, and a method that mutates its object returns the object as it
  stands when the call ends, beside the exception if one was raised.
\<close>

datatype error =
    ValueError
  | AttributeError
  | ZeroDivisionError
  | KeyError
  | IndexError
  | NotImplementedError

text \<open>A list comprehension whose body can raise: the first exception ends it.\<close>

fun comprehension :: "('a \<Rightarrow> error + 'b) \<Rightarrow> 'a list \<Rightarrow> error + 'b list" where
  "comprehension f [] = Inr []"
| "comprehension f (x # xs) =
     (case f x of
        Inl e \<Rightarrow> Inl e
      | Inr y \<Rightarrow> (case comprehension f xs of Inl e \<Rightarrow> Inl e | Inr ys \<Rightarrow> Inr (y # ys)))"

text \<open>\<^verbatim>\<open>xs[i]\<close>: a negative index counts from the end, an index out of range raises.\<close>

definition getitem :: "'a list \<Rightarrow> int \<Rightarrow> error + 'a" where
  "getitem xs i =
     (if 0 \<le> i \<and> i < int (length xs) then Inr (xs ! nat i)
      else if i < 0 \<and> - int (length xs) \<le> i then Inr (xs ! nat (int (length xs) + i))
      else Inl IndexError)"

text \<open>\<^verbatim>\<open>a / b\<close> on numbers.\<close>

definition truediv :: "real \<Rightarrow> real \<Rightarrow> error + real" where
  "truediv a b = (if b = 0 then Inl ZeroDivisionError else Inr (a / b))"

subsection \<open>Strings\<close>

text \<open>\<^verbatim>\<open>s.split(sep)\<close> for a one-character separator: the result is never empty.\<close>

fun split :: "char \<Rightarrow> string \<Rightarrow> string list" where
  "split sep [] = [[]]"
| "split sep (c # cs) =
     (if c = sep then [] # split sep cs
      else (c # hd (split sep cs)) # tl (split sep cs))"

definition isspace :: "char \<Rightarrow> bool" where
  "isspace c \<longleftrightarrow>
     c \<in> set [CHR 0x09, CHR 0x0A, CHR 0x0B, CHR 0x0C, CHR 0x0D,
                CHR 0x1C, CHR 0x1D, CHR 0x1E, CHR 0x1F, CHR '' '']"

definition strip :: "string \<Rightarrow> string" where
  "strip s = rev (dropWhile isspace (rev (dropWhile isspace s)))"

definition ascii_upper :: "(char \<times> char) list" where
  "ascii_upper = zip ''abcdefghijklmnopqrstuvwxyz'' ''ABCDEFGHIJKLMNOPQRSTUVWXYZ''"

definition upper :: "string \<Rightarrow> string" where
  "upper s = map (\<lambda>c. case map_of ascii_upper c of Some u \<Rightarrow> u | None \<Rightarrow> c) s"

definition lower :: "string \<Rightarrow> string" where
  "lower s =
     map (\<lambda>c. case map_of (map prod.swap ascii_upper) c of Some l \<Rightarrow> l | None \<Rightarrow> c) s"

definition startswith :: "string \<Rightarrow> string \<Rightarrow> bool" where
  "startswith s p \<longleftrightarrow> take (length p) s = p"

subsection \<open>Integers and their decimal text\<close>

definition digit_char :: "nat \<Rightarrow> char" where
  "digit_char d = ''0123456789'' ! d"

definition digit_val :: "char \<Rightarrow> nat option" where
  "digit_val c = map_of (zip ''0123456789'' [0, 1, 2, 3, 4, 5, 6, 7, 8, 9]) c"

text \<open>\<^verbatim>\<open>str(n)\<close>, as an f-string formats an \<^verbatim>\<open>int\<close>.\<close>

function str_nat :: "nat \<Rightarrow> string" where
  "str_nat n = (if n < 10 then [digit_char n] else str_nat (n div 10) @ [digit_char (n mod 10)])"
  by pat_completeness auto
termination
  by (relation "measure (\<lambda>n. n)") auto

declare str_nat.simps [simp del]

definition str_int :: "int \<Rightarrow> string" where
  "str_int i = (if i < 0 then CHR ''-'' # str_nat (nat (- i)) else str_nat (nat i))"

text \<open>
  \<^verbatim>\<open>int(s)\<close> on a string: surrounding whitespace is dropped, a sign may lead, and the
  digits may be grouped by single underscores. The whitespace that \<^verbatim>\<open>int\<close> drops is
  that of C (tab to carriage return, and the blank): the separators \<open>0x1C\<close> to \<open>0x1F\<close>,
  which \<^verbatim>\<open>str.strip\<close> removes, are no part of a number. \<open>int_digits acc s\<close> reads what
  follows a digit, \<open>acc\<close> being the value read so far.
\<close>

definition int_isspace :: "char \<Rightarrow> bool" where
  "int_isspace c \<longleftrightarrow>
     c \<in> set [CHR 0x09, CHR 0x0A, CHR 0x0B, CHR 0x0C, CHR 0x0D, CHR '' '']"

definition int_strip :: "string \<Rightarrow> string" where
  "int_strip s = rev (dropWhile int_isspace (rev (dropWhile int_isspace s)))"

fun int_digits :: "nat \<Rightarrow> string \<Rightarrow> nat option" where
  "int_digits acc [] = Some acc"
| "int_digits acc [c] =
     (case digit_val c of None \<Rightarrow> None | Some v \<Rightarrow> Some (10 * acc + v))"
| "int_digits acc (c # d # ds) =
     (if c = CHR ''_''
      then (case digit_val d of None \<Rightarrow> None | Some v \<Rightarrow> int_digits (10 * acc + v) ds)
      else (case digit_val c of None \<Rightarrow> None | Some v \<Rightarrow> int_digits (10 * acc + v) (d # ds)))"

definition int_literal :: "string \<Rightarrow> nat option" where
  "int_literal s =
     (case s of
        [] \<Rightarrow> None
      | c # cs \<Rightarrow> (case digit_val c of None \<Rightarrow> None | Some v \<Rightarrow> int_digits v cs))"

definition py_int :: "string \<Rightarrow> error + int" where
  "py_int s =
     (let t = int_strip s;
          r = (case t of
                 [] \<Rightarrow> None
               | c # cs \<Rightarrow>
                   if c = CHR ''-'' then map_option (\<lambda>n. - int n) (int_literal cs)
                   else if c = CHR ''+'' then map_option int (int_literal cs)
                   else map_option int (int_literal t))
      in case r of None \<Rightarrow> Inl ValueError | Some i \<Rightarrow> Inr i)"

section \<open>Level identifiers\<close>

text \<open>
  Modelled from the spec: \<^verbatim>\<open>TradeType\<close> is declared in
  \<^verbatim>\<open>hummingbot.core.data_type.common\<close>, which is not among the sources. The spec gives the
  enumeration \<^verbatim>\<open>Side {Buy, Sell}\<close>; the controller reads a member's \<^verbatim>\<open>name\<close> and looks a
  member up by it (\<^verbatim>\<open>TradeType[...]\<close>).
\<close>

datatype TradeType = BUY | SELL

fun name :: "TradeType \<Rightarrow> string" where
  "name BUY = ''BUY''"
| "name SELL = ''SELL''"

definition TradeType_getitem :: "string \<Rightarrow> error + TradeType" where
  "TradeType_getitem s =
     (if s = ''BUY'' then Inr BUY else if s = ''SELL'' then Inr SELL else Inl KeyError)"

definition get_level_id_from_side :: "TradeType \<Rightarrow> int \<Rightarrow> string" where
  "get_level_id_from_side trade_type level = lower (name trade_type) @ ''_'' @ str_int level"

definition get_trade_type_from_level_id :: "string \<Rightarrow> TradeType" where
  "get_trade_type_from_level_id level_id = (if startswith level_id ''buy'' then BUY else SELL)"

definition get_level_from_level_id :: "string \<Rightarrow> error + int" where
  "get_level_from_level_id level_id =
     (case getitem (split CHR ''_'' level_id) 1 of Inl e \<Rightarrow> Inl e | Inr s \<Rightarrow> py_int s)"

text \<open>
  \<^verbatim>\<open>get_price_and_amount\<close> compares the text before the underscore of a level id, a
  \<^verbatim>\<open>str\<close>, with the member \<^verbatim>\<open>TradeType.BUY\<close>. \<open>py_eq\<close> is Python's \<^verbatim>\<open>==\<close> on these two kinds
  of object: a member of an enumeration equals itself only, and no string.
\<close>

datatype pyobject = Str string | Member TradeType

definition py_eq :: "pyobject \<Rightarrow> pyobject \<Rightarrow> bool" where
  "py_eq a b \<longleftrightarrow> a = b"

section \<open>The configuration: MarketMakingControllerConfigBase\<close>

datatype PositionMode = HEDGE | ONEWAY

text \<open>
  The fields of the class, after validation: spreads and amounts are lists of numbers.
  \<open>id_config\<close> is the field \<^verbatim>\<open>id\<close> of the base class \<^verbatim>\<open>ControllerConfigBase\<close>, which the
  controller reads as \<^verbatim>\<open>self.config.id\<close>.
\<close>

record controller_config =
  id_config :: string
  connector_name :: string
  trading_pair :: string
  total_amount_quote :: real
  buy_spreads :: "real list"
  buy_amounts_pct :: "real list"
  sell_spreads :: "real list"
  sell_amounts_pct :: "real list"
  executor_refresh_time :: int
  cooldown_time :: int
  leverage :: int
  position_mode :: PositionMode
  closed_executors_buffer :: int

text \<open>
  What a caller may hand over for a list field: \<^verbatim>\<open>Union[List[float], str]\<close> for spreads,
  \<^verbatim>\<open>Union[List[int], str, None]\<close> for amounts (\<open>None\<close> of the option type is Python's).
\<close>

datatype spreads_input = SpreadsList "real list" | SpreadsStr string

datatype amounts_input = AmountsList "int list" | AmountsStr string

text \<open>
  The four list fields are read and written by name (\<^verbatim>\<open>getattr\<close>, \<^verbatim>\<open>setattr\<close>,
  \<^verbatim>\<open>values[...]\<close>, \<^verbatim>\<open>self.__dict__\<close>). \<open>replace_amounts_pct_spreads\<close> is
  \<^verbatim>\<open>name.replace('amounts_pct', 'spreads')\<close> on these names.
\<close>

datatype field_name =
  buy_spreads_name | buy_amounts_pct_name | sell_spreads_name | sell_amounts_pct_name

fun getattr :: "controller_config \<Rightarrow> field_name \<Rightarrow> real list" where
  "getattr self buy_spreads_name = buy_spreads self"
| "getattr self buy_amounts_pct_name = buy_amounts_pct self"
| "getattr self sell_spreads_name = sell_spreads self"
| "getattr self sell_amounts_pct_name = sell_amounts_pct self"

fun setattr :: "controller_config \<Rightarrow> field_name \<Rightarrow> real list \<Rightarrow> controller_config" where
  "setattr self buy_spreads_name v = self\<lparr>buy_spreads := v\<rparr>"
| "setattr self buy_amounts_pct_name v = self\<lparr>buy_amounts_pct := v\<rparr>"
| "setattr self sell_spreads_name v = self\<lparr>sell_spreads := v\<rparr>"
| "setattr self sell_amounts_pct_name v = self\<lparr>sell_amounts_pct := v\<rparr>"

fun replace_amounts_pct_spreads :: "field_name \<Rightarrow> field_name" where
  "replace_amounts_pct_spreads buy_amounts_pct_name = buy_spreads_name"
| "replace_amounts_pct_spreads sell_amounts_pct_name = sell_spreads_name"
| "replace_amounts_pct_spreads n = n"

text \<open>
  The third argument of the amounts validator. The validation framework passes the
  field object, whose \<^verbatim>\<open>name\<close> the validator reads; \<^verbatim>\<open>update_parameters\<close> passes the
  field's name itself, a \<^verbatim>\<open>str\<close>, and a \<^verbatim>\<open>str\<close> has no attribute \<^verbatim>\<open>name\<close>.
\<close>

datatype field_arg = ModelField field_name | FieldStr field_name

fun field_dot_name :: "field_arg \<Rightarrow> error + field_name" where
  "field_dot_name (ModelField n) = Inr n"
| "field_dot_name (FieldStr n) = Inl AttributeError"

text \<open>
  \<^verbatim>\<open>float(s)\<close> on a string is a parameter \<open>py_float\<close> of the model: the number read, or the
  \<^verbatim>\<open>ValueError\<close> raised.
\<close>

definition parse_spreads :: "(string \<Rightarrow> error + real) \<Rightarrow> spreads_input \<Rightarrow> error + real list" where
  "parse_spreads py_float v =
     (case v of
        SpreadsStr s \<Rightarrow> comprehension (\<lambda>x. py_float (strip x)) (split CHR '','' s)
      | SpreadsList l \<Rightarrow> Inr l)"

definition parse_and_validate_amounts ::
    "amounts_input option \<Rightarrow> controller_config \<Rightarrow> field_arg \<Rightarrow> error + real list" where
  "parse_and_validate_amounts v vals field =
     (case (case v of
              Some (AmountsStr s) \<Rightarrow>
                (case comprehension (\<lambda>x. py_int (strip x)) (split CHR '','' s) of
                   Inl e \<Rightarrow> Inl e
                 | Inr l \<Rightarrow> Inr (Some l))
            | Some (AmountsList l) \<Rightarrow> Inr (Some l)
            | None \<Rightarrow> Inr None) of
        Inl e \<Rightarrow> Inl e
      | Inr None \<Rightarrow>
          (case field_dot_name field of
             Inl e \<Rightarrow> Inl e
           | Inr n \<Rightarrow> Inr (map (\<lambda>_. 1) (getattr vals (replace_amounts_pct_spreads n))))
      | Inr (Some l) \<Rightarrow>
          (case field_dot_name field of
             Inl e \<Rightarrow> Inl e
           | Inr n \<Rightarrow>
               if length l \<noteq> length (getattr vals (replace_amounts_pct_spreads n))
               then Inl ValueError
               else Inr (map real_of_int l)))"

text \<open>
  The root validator. It writes the buy side into \<open>vals\<close> before it divides the sell
  side, so an exception of the second comprehension leaves the first assignment done.
\<close>

definition normalize_amounts :: "controller_config \<Rightarrow> error option \<times> controller_config" where
  "normalize_amounts vals =
     (let buy_amounts_pct' = buy_amounts_pct vals;
          sell_amounts_pct' = sell_amounts_pct vals;
          total_buy = sum_list buy_amounts_pct';
          total_sell = sum_list sell_amounts_pct'
      in case comprehension (\<lambda>amt. truediv amt total_buy) buy_amounts_pct' of
           Inl e \<Rightarrow> (Some e, vals)
         | Inr b \<Rightarrow>
             (case comprehension (\<lambda>amt. truediv amt total_sell) sell_amounts_pct' of
                Inl e \<Rightarrow> (Some e, vals\<lparr>buy_amounts_pct := b\<rparr>)
              | Inr s \<Rightarrow> (None, vals\<lparr>buy_amounts_pct := b, sell_amounts_pct := s\<rparr>)))"

text \<open>
  Building a configuration: the keyword arguments of the constructor, and the validators
  in the order of the fields they belong to (buy spreads, buy amounts, sell spreads, sell
  amounts), then the root validator. The framework that runs them is not among the
  sources. It keeps the \<^verbatim>\<open>ValueError\<close> of a field validator and goes on without that
  field; a validator that follows, at the latest the root validator, then looks the
  missing field up, and the constructor ends with \<^verbatim>\<open>KeyError\<close>. Any other exception
  leaves the constructor as it is. \<open>validate_fields\<close> runs the field validators up to
  the first that raises; \<open>build_config\<close> reports a \<^verbatim>\<open>ValueError\<close> among them as that
  \<^verbatim>\<open>KeyError\<close>.
\<close>

record config_input =
  in_id :: string
  in_connector_name :: string
  in_trading_pair :: string
  in_total_amount_quote :: real
  in_buy_spreads :: spreads_input
  in_buy_amounts_pct :: "amounts_input option"
  in_sell_spreads :: spreads_input
  in_sell_amounts_pct :: "amounts_input option"
  in_executor_refresh_time :: int
  in_cooldown_time :: int
  in_leverage :: int
  in_position_mode :: PositionMode
  in_closed_executors_buffer :: int

definition scalars :: "config_input \<Rightarrow> controller_config" where
  "scalars inp =
     \<lparr>id_config = in_id inp, connector_name = in_connector_name inp,
      trading_pair = in_trading_pair inp, total_amount_quote = in_total_amount_quote inp,
      buy_spreads = [], buy_amounts_pct = [], sell_spreads = [], sell_amounts_pct = [],
      executor_refresh_time = in_executor_refresh_time inp,
      cooldown_time = in_cooldown_time inp, leverage = in_leverage inp,
      position_mode = in_position_mode inp,
      closed_executors_buffer = in_closed_executors_buffer inp\<rparr>"

definition validate_fields :: "(string \<Rightarrow> error + real) \<Rightarrow> config_input \<Rightarrow> error + controller_config" where
  "validate_fields py_float inp =
     (case parse_spreads py_float (in_buy_spreads inp) of
        Inl e \<Rightarrow> Inl e
      | Inr bs \<Rightarrow>
     (let v1 = (scalars inp)\<lparr>buy_spreads := bs\<rparr> in
      case parse_and_validate_amounts (in_buy_amounts_pct inp) v1 (ModelField buy_amounts_pct_name) of
        Inl e \<Rightarrow> Inl e
      | Inr ba \<Rightarrow>
     (let v2 = v1\<lparr>buy_amounts_pct := ba\<rparr> in
      case parse_spreads py_float (in_sell_spreads inp) of
        Inl e \<Rightarrow> Inl e
      | Inr ss \<Rightarrow>
     (let v3 = v2\<lparr>sell_spreads := ss\<rparr> in
      case parse_and_validate_amounts (in_sell_amounts_pct inp) v3 (ModelField sell_amounts_pct_name) of
        Inl e \<Rightarrow> Inl e
      | Inr sa \<Rightarrow> Inr (v3\<lparr>sell_amounts_pct := sa\<rparr>)))))"

definition build_config :: "(string \<Rightarrow> error + real) \<Rightarrow> config_input \<Rightarrow> error + controller_config" where
  "build_config py_float inp =
     (case validate_fields py_float inp of
        Inl e \<Rightarrow> Inl (if e = ValueError then KeyError else e)
      | Inr vals \<Rightarrow>
          (case normalize_amounts vals of
             (Some e, _) \<Rightarrow> Inl e
           | (None, vals') \<Rightarrow> Inr vals'))"

text \<open>
  \<^verbatim>\<open>update_parameters\<close> mutates \<open>self\<close>; the result is the exception raised, if any, and
  \<open>self\<close> as the call leaves it.
\<close>

definition update_parameters ::
    "(string \<Rightarrow> error + real) \<Rightarrow> controller_config \<Rightarrow> TradeType \<Rightarrow> spreads_input \<Rightarrow>
     amounts_input option \<Rightarrow> error option \<times> controller_config" where
  "update_parameters py_float self trade_type new_spreads new_amounts_pct =
     (let spreads_field = (if trade_type = BUY then buy_spreads_name else sell_spreads_name);
          amounts_pct_field =
            (if trade_type = BUY then buy_amounts_pct_name else sell_amounts_pct_name)
      in case parse_spreads py_float new_spreads of
           Inl e \<Rightarrow> (Some e, self)
         | Inr sp \<Rightarrow>
             (let self1 = setattr self spreads_field sp in
              case new_amounts_pct of
                Some a \<Rightarrow>
                  (case parse_and_validate_amounts (Some a) self1 (FieldStr amounts_pct_field) of
                     Inl e \<Rightarrow> (Some e, self1)
                   | Inr am \<Rightarrow> normalize_amounts (setattr self1 amounts_pct_field am))
              | None \<Rightarrow>
                  normalize_amounts
                    (setattr self1 amounts_pct_field (map (\<lambda>_. 1) (getattr self1 spreads_field)))))"

fun spreads_name :: "TradeType \<Rightarrow> field_name" where
  "spreads_name BUY = buy_spreads_name"
| "spreads_name SELL = sell_spreads_name"

fun amounts_pct_name :: "TradeType \<Rightarrow> field_name" where
  "amounts_pct_name BUY = buy_amounts_pct_name"
| "amounts_pct_name SELL = sell_amounts_pct_name"

text \<open>
  \<open>spreads_name\<close> and \<open>amounts_pct_name\<close> are the names
  \<^verbatim>\<open>f'{trade_type.name.lower()}_spreads'\<close> and \<^verbatim>\<open>f'{trade_type.name.lower()}_amounts_pct'\<close>.
\<close>

definition get_spreads_and_amounts_in_quote ::
    "controller_config \<Rightarrow> TradeType \<Rightarrow> real list \<times> real list" where
  "get_spreads_and_amounts_in_quote self trade_type =
     (let spreads = getattr self (spreads_name trade_type);
          amounts_pct = getattr self (amounts_pct_name trade_type)
      in (spreads, map (\<lambda>amt_pct. amt_pct * total_amount_quote self) amounts_pct))"

section \<open>The root validator in float arithmetic\<close>

text \<open>
  Whether dividing a normalized side by its sum once more changes it is a matter of
  rounding, which exact arithmetic does not show. This section gives the root validator,
  the constructor and \<^verbatim>\<open>update_parameters\<close> once more, with the arithmetic of Python's
  \<^verbatim>\<open>float\<close>: the binary64 format, 53 significant bits, every result rounded to the nearest
  double with ties to the even one. \<open>spacing x\<close> is the distance between neighbouring
  doubles at \<open>x \<ge> 0\<close>: \<open>2\<close> to the \<open>-52\<close> between 1 and 2, doubling and halving with
  the binade, and constant below \<open>2\<close> to the \<open>-1022\<close>. A result beyond the largest double
  (an infinity) is outside the model.
\<close>

definition round_half_even :: "real \<Rightarrow> int" where
  "round_half_even x =
     (let n = \<lfloor>x\<rfloor>; r = x - of_int n
      in if r < 1 / 2 then n else if 1 / 2 < r then n + 1 else if even n then n else n + 1)"

fun spacing_below :: "nat \<Rightarrow> real \<Rightarrow> real" where
  "spacing_below 0 x = 1 / 2 ^ 52"
| "spacing_below (Suc n) x = (if x < 1 then spacing_below n (2 * x) / 2 else 1 / 2 ^ 52)"

fun spacing_above :: "nat \<Rightarrow> real \<Rightarrow> real" where
  "spacing_above 0 x = 1 / 2 ^ 52"
| "spacing_above (Suc n) x = (if 2 \<le> x then 2 * spacing_above n (x / 2) else 1 / 2 ^ 52)"

definition spacing :: "real \<Rightarrow> real" where
  "spacing x = (if x < 1 then spacing_below 1022 x else spacing_above 1023 x)"

definition round_double :: "real \<Rightarrow> real" where
  "round_double x =
     (let q = spacing \<bar>x\<bar> in sgn x * real_of_int (round_half_even (\<bar>x\<bar> / q)) * q)"

definition is_double :: "real \<Rightarrow> bool" where
  "is_double x \<longleftrightarrow> round_double x = x"

text \<open>
  \<^verbatim>\<open>a + b\<close> and \<^verbatim>\<open>a / b\<close> on floats, and \<^verbatim>\<open>sum(xs)\<close>, which adds from the left, starting
  from 0, and rounds every addition. (Interpreters from version 3.12 on carry the rounding
  errors of \<^verbatim>\<open>sum\<close> along and add them at the end.) A weight that is an \<^verbatim>\<open>int\<close> is the
  same number as a float as long as it is below \<open>2\<close> to the \<open>53\<close>.
\<close>

definition float_add :: "real \<Rightarrow> real \<Rightarrow> real" where
  "float_add a b = round_double (a + b)"

definition float_truediv :: "real \<Rightarrow> real \<Rightarrow> error + real" where
  "float_truediv a b = (if b = 0 then Inl ZeroDivisionError else Inr (round_double (a / b)))"

definition float_sum :: "real list \<Rightarrow> real" where
  "float_sum xs = foldl float_add 0 xs"

definition normalize_amounts_float ::
    "controller_config \<Rightarrow> error option \<times> controller_config" where
  "normalize_amounts_float vals =
     (let buy_amounts_pct' = buy_amounts_pct vals;
          sell_amounts_pct' = sell_amounts_pct vals;
          total_buy = float_sum buy_amounts_pct';
          total_sell = float_sum sell_amounts_pct'
      in case comprehension (\<lambda>amt. float_truediv amt total_buy) buy_amounts_pct' of
           Inl e \<Rightarrow> (Some e, vals)
         | Inr b \<Rightarrow>
             (case comprehension (\<lambda>amt. float_truediv amt total_sell) sell_amounts_pct' of
                Inl e \<Rightarrow> (Some e, vals\<lparr>buy_amounts_pct := b\<rparr>)
              | Inr s \<Rightarrow> (None, vals\<lparr>buy_amounts_pct := b, sell_amounts_pct := s\<rparr>)))"

definition build_config_float ::
    "(string \<Rightarrow> error + real) \<Rightarrow> config_input \<Rightarrow> error + controller_config" where
  "build_config_float py_float inp =
     (case validate_fields py_float inp of
        Inl e \<Rightarrow> Inl (if e = ValueError then KeyError else e)
      | Inr vals \<Rightarrow>
          (case normalize_amounts_float vals of
             (Some e, _) \<Rightarrow> Inl e
           | (None, vals') \<Rightarrow> Inr vals'))"

definition update_parameters_float ::
    "(string \<Rightarrow> error + real) \<Rightarrow> controller_config \<Rightarrow> TradeType \<Rightarrow> spreads_input \<Rightarrow>
     amounts_input option \<Rightarrow> error option \<times> controller_config" where
  "update_parameters_float py_float self trade_type new_spreads new_amounts_pct =
     (let spreads_field = (if trade_type = BUY then buy_spreads_name else sell_spreads_name);
          amounts_pct_field =
            (if trade_type = BUY then buy_amounts_pct_name else sell_amounts_pct_name)
      in case parse_spreads py_float new_spreads of
           Inl e \<Rightarrow> (Some e, self)
         | Inr sp \<Rightarrow>
             (let self1 = setattr self spreads_field sp in
              case new_amounts_pct of
                Some a \<Rightarrow>
                  (case parse_and_validate_amounts (Some a) self1 (FieldStr amounts_pct_field) of
                     Inl e \<Rightarrow> (Some e, self1)
                   | Inr am \<Rightarrow> normalize_amounts_float (setattr self1 amounts_pct_field am))
              | None \<Rightarrow>
                  normalize_amounts_float
                    (setattr self1 amounts_pct_field (map (\<lambda>_. 1) (getattr self1 spreads_field)))))"

section \<open>The controller: MarketMakingControllerBase\<close>

text \<open>
  Modelled from the spec: \<^verbatim>\<open>ExecutorInfo\<close>, \<^verbatim>\<open>SmartComponentStatus\<close>, the two actions and
  \<^verbatim>\<open>ControllerBase\<close> (which holds \<^verbatim>\<open>executors_info\<close> and \<^verbatim>\<open>processed_data\<close> and
  defines \<^verbatim>\<open>filter_executors\<close>) are declared outside the sources. The spec lists the
  fields of an executor snapshot that the controller reads, the statuses
  \<^verbatim>\<open>{Active, Trading, Terminated, ...}\<close> of which the controller tests \<^verbatim>\<open>TERMINATED\<close> only,
  and the actions \<^verbatim>\<open>CreateExecutor{controller_id, executor_config}\<close> and
  \<^verbatim>\<open>StopExecutor{executor_id}\<close>; \<^verbatim>\<open>filter_executors\<close> selects, in snapshot order, the
  executors that satisfy the predicate. The close time is absent in the spec until an
  executor has closed; the controller reads it as the sort key of terminated executors
  only, and \<open>close_timestamp\<close> holds it as a number.
\<close>

datatype SmartComponentStatus = ACTIVE | TRADING | TERMINATED | OTHER_STATUS

record executor_info =
  id_executor :: string
  trade_type :: TradeType
  status :: SmartComponentStatus
  is_active :: bool
  is_trading :: bool
  timestamp :: real
  close_timestamp :: real
  custom_info :: "string \<rightharpoonup> string"

datatype 'c ExecutorAction =
    CreateExecutorAction string 'c
  | StopExecutorAction string

definition filter_executors ::
    "executor_info list \<Rightarrow> (executor_info \<Rightarrow> bool) \<Rightarrow> executor_info list" where
  "filter_executors executors filter_func = filter filter_func executors"

text \<open>\<^verbatim>\<open>d[key]\<close> on a dictionary.\<close>

definition dict_getitem :: "('k \<rightharpoonup> 'v) \<Rightarrow> 'k \<Rightarrow> error + 'v" where
  "dict_getitem d k = (case d k of None \<Rightarrow> Inl KeyError | Some v \<Rightarrow> Inr v)"

record controller =
  config :: controller_config
  executors_info :: "executor_info list"
  processed_data :: "string \<rightharpoonup> real"

definition EXECUTORS_BUFFER :: nat where
  "EXECUTORS_BUFFER = 5"

text \<open>
  \<^verbatim>\<open>get_price_and_amount\<close>: the tuple assignment raises \<^verbatim>\<open>ValueError\<close> unless the level id
  splits into two parts.
\<close>

definition get_price_and_amount :: "controller \<Rightarrow> string \<Rightarrow> error + real \<times> real" where
  "get_price_and_amount self level_id =
     (case split CHR ''_'' level_id of
        [trade_type', level] \<Rightarrow>
          (case TradeType_getitem (upper trade_type') of
             Inl e \<Rightarrow> Inl e
           | Inr tt \<Rightarrow>
          (case get_spreads_and_amounts_in_quote (config self) tt of
             (spreads, amounts_quote) \<Rightarrow>
          (case dict_getitem (processed_data self) ''reference_price'' of
             Inl e \<Rightarrow> Inl e
           | Inr reference_price \<Rightarrow>
          (case py_int level of
             Inl e \<Rightarrow> Inl e
           | Inr i \<Rightarrow>
          (case getitem spreads i of
             Inl e \<Rightarrow> Inl e
           | Inr spread \<Rightarrow>
          (case dict_getitem (processed_data self) ''spread_multiplier'' of
             Inl e \<Rightarrow> Inl e
           | Inr spread_multiplier \<Rightarrow>
          (let spread_in_pct = spread * spread_multiplier;
               side_multiplier = (if py_eq (Str trade_type') (Member BUY) then - 1 else 1);
               order_price = reference_price * (1 + side_multiplier * spread_in_pct)
           in case getitem amounts_quote i of
                Inl e \<Rightarrow> Inl e
              | Inr amount_quote \<Rightarrow>
                  (case truediv amount_quote order_price of
                     Inl e \<Rightarrow> Inl e
                   | Inr amount \<Rightarrow> Inr (order_price, amount)))))))))
      | _ \<Rightarrow> Inl ValueError)"

definition get_not_active_levels_ids :: "controller \<Rightarrow> string list \<Rightarrow> string list" where
  "get_not_active_levels_ids self active_levels_ids =
     (let buy_ids_missing =
            [get_level_id_from_side BUY (int level).
               level \<leftarrow> [0 ..< length (buy_spreads (config self))],
               get_level_id_from_side BUY (int level) \<notin> set active_levels_ids];
          sell_ids_missing =
            [get_level_id_from_side SELL (int level).
               level \<leftarrow> [0 ..< length (sell_spreads (config self))],
               get_level_id_from_side SELL (int level) \<notin> set active_levels_ids]
      in buy_ids_missing @ sell_ids_missing)"

definition filter_not_active_levels :: "controller \<Rightarrow> string list \<Rightarrow> string list" where
  "filter_not_active_levels self not_active_levels = not_active_levels"

text \<open>
  \<^verbatim>\<open>get_executor_config\<close> is abstract: the base class raises, a strategy overrides it. The
  controller's functions take the method as their first argument \<open>gec\<close>.
\<close>

definition get_executor_config :: "string \<Rightarrow> real \<Rightarrow> real \<Rightarrow> error + 'c" where
  "get_executor_config level_id price amount_in_quote = Inl NotImplementedError"

definition levels_to_execute :: "controller \<Rightarrow> error + string list" where
  "levels_to_execute self =
     (let active_buy_executors =
            filter_executors (executors_info self)
              (\<lambda>executor. trade_type executor = BUY \<and> is_active executor);
          active_sell_executors =
            filter_executors (executors_info self)
              (\<lambda>executor. trade_type executor = SELL \<and> is_active executor)
      in case comprehension (\<lambda>executor. dict_getitem (custom_info executor) ''level_id'')
                (active_buy_executors @ active_sell_executors) of
           Inl e \<Rightarrow> Inl e
         | Inr active_levels_ids \<Rightarrow>
             Inr (filter_not_active_levels self
                    (get_not_active_levels_ids self active_levels_ids)))"

definition create_action ::
    "(string \<Rightarrow> real \<Rightarrow> real \<Rightarrow> error + 'c) \<Rightarrow> controller \<Rightarrow> string \<Rightarrow> error + 'c ExecutorAction" where
  "create_action gec self level_id =
     (case get_price_and_amount self level_id of
        Inl e \<Rightarrow> Inl e
      | Inr (price, amount) \<Rightarrow>
          (case gec level_id price amount of
             Inl e \<Rightarrow> Inl e
           | Inr executor_config \<Rightarrow>
               Inr (CreateExecutorAction (id_config (config self)) executor_config)))"

definition create_actions_proposal ::
    "(string \<Rightarrow> real \<Rightarrow> real \<Rightarrow> error + 'c) \<Rightarrow> controller \<Rightarrow> error + 'c ExecutorAction list" where
  "create_actions_proposal gec self =
     (case levels_to_execute self of
        Inl e \<Rightarrow> Inl e
      | Inr levels \<Rightarrow> comprehension (create_action gec self) levels)"

text \<open>
  The refresh pass reads the clock inside the filter, once for every executor that is
  active and not trading (\<^verbatim>\<open>and\<close> evaluates left to right and stops early). \<open>time_time\<close>
  gives the value of the \<open>k\<close>-th reading of the pass.
\<close>

fun refresh_filter :: "(nat \<Rightarrow> real) \<Rightarrow> int \<Rightarrow> nat \<Rightarrow> executor_info list \<Rightarrow> executor_info list" where
  "refresh_filter time_time refresh_time k [] = []"
| "refresh_filter time_time refresh_time k (x # xs) =
     (if \<not> is_trading x \<and> is_active x
      then (if time_time k - timestamp x > real_of_int refresh_time
            then x # refresh_filter time_time refresh_time (Suc k) xs
            else refresh_filter time_time refresh_time (Suc k) xs)
      else refresh_filter time_time refresh_time k xs)"

definition executors_to_refresh :: "(nat \<Rightarrow> real) \<Rightarrow> controller \<Rightarrow> 'c ExecutorAction list" where
  "executors_to_refresh time_time self =
     (let executors_to_refresh' =
            refresh_filter time_time (executor_refresh_time (config self)) 0 (executors_info self)
      in map (\<lambda>executor. StopExecutorAction (id_executor executor)) executors_to_refresh')"

text \<open>
  \<^verbatim>\<open>executors_to_early_stop\<close> is written to be overridden by a strategy; the base class
  stops nothing. The functions that call the method take it as their argument
  \<open>early_stop\<close>.
\<close>

definition executors_to_early_stop :: "controller \<Rightarrow> 'c ExecutorAction list" where
  "executors_to_early_stop self = []"

definition stop_actions_proposal ::
    "(controller \<Rightarrow> 'c ExecutorAction list) \<Rightarrow> (nat \<Rightarrow> real) \<Rightarrow> controller \<Rightarrow>
     'c ExecutorAction list" where
  "stop_actions_proposal early_stop time_time self =
     executors_to_refresh time_time self @ early_stop self"

text \<open>
  \<^verbatim>\<open>sorted(..., key=..., reverse=True)\<close> is stable: it sorts the reversed list upwards and
  reverses the result.
\<close>

definition sorted_reverse :: "('a \<Rightarrow> real) \<Rightarrow> 'a list \<Rightarrow> 'a list" where
  "sorted_reverse key xs = rev (sort_key key (rev xs))"

definition store_actions_proposal :: "controller \<Rightarrow> 'c ExecutorAction list" where
  "store_actions_proposal self =
     (let terminated_executors =
            filter_executors (executors_info self) (\<lambda>x. status x = TERMINATED);
          executors_sorted_by_close_timestamp =
            sorted_reverse close_timestamp terminated_executors
      in if length executors_sorted_by_close_timestamp > EXECUTORS_BUFFER
         then map (\<lambda>executor. StopExecutorAction (id_executor executor))
                (drop EXECUTORS_BUFFER (executors_info self))
         else [])"

definition determine_executor_actions ::
    "(string \<Rightarrow> real \<Rightarrow> real \<Rightarrow> error + 'c) \<Rightarrow> (controller \<Rightarrow> 'c ExecutorAction list) \<Rightarrow>
     (nat \<Rightarrow> real) \<Rightarrow> controller \<Rightarrow> error + 'c ExecutorAction list" where
  "determine_executor_actions gec early_stop time_time self =
     (case create_actions_proposal gec self of
        Inl e \<Rightarrow> Inl e
      | Inr create \<Rightarrow>
          Inr ([] @ create @ stop_actions_proposal early_stop time_time self @
               store_actions_proposal self))"

section \<open>The scenario of the spec, and other concrete inputs\<close>

text \<open>
  Two levels on each side at spreads 0.01 and 0.02, amounts left out, 100 of the quote
  asset; the reference price is 100 and the spread multiplier 1; no executor runs. The
  inputs are lists, so \<^verbatim>\<open>float\<close> is never called on a string: \<open>no_float\<close> stands for it
  where a closed term needs one.
\<close>

definition no_float :: "string \<Rightarrow> error + real" where
  "no_float s = Inl ValueError"

definition scenario_input :: config_input where
  "scenario_input =
     \<lparr>in_id = ''mm'', in_connector_name = ''binance_perpetual'',
      in_trading_pair = ''WLD-USDT'', in_total_amount_quote = 100,
      in_buy_spreads = SpreadsList [1 / 100, 2 / 100], in_buy_amounts_pct = None,
      in_sell_spreads = SpreadsList [1 / 100, 2 / 100], in_sell_amounts_pct = None,
      in_executor_refresh_time = 300, in_cooldown_time = 15, in_leverage = 20,
      in_position_mode = HEDGE, in_closed_executors_buffer = 10\<rparr>"

definition scenario_config :: controller_config where
  "scenario_config =
     \<lparr>id_config = ''mm'', connector_name = ''binance_perpetual'',
      trading_pair = ''WLD-USDT'', total_amount_quote = 100,
      buy_spreads = [1 / 100, 2 / 100], buy_amounts_pct = [1 / 2, 1 / 2],
      sell_spreads = [1 / 100, 2 / 100], sell_amounts_pct = [1 / 2, 1 / 2],
      executor_refresh_time = 300, cooldown_time = 15, leverage = 20,
      position_mode = HEDGE, closed_executors_buffer = 10\<rparr>"

definition scenario :: controller where
  "scenario =
     \<lparr>config = scenario_config, executors_info = [],
      processed_data = [''reference_price'' \<mapsto> 100, ''spread_multiplier'' \<mapsto> 1]\<rparr>"

text \<open>
  A busy snapshot for the same configuration and prices: \<open>e1\<close> holds \<open>buy_0\<close> and
  has waited since time 0, \<open>e2\<close> holds \<open>sell_1\<close> and trades, and six executors have
  terminated.
\<close>

definition terminated_executor :: "string \<Rightarrow> real \<Rightarrow> executor_info" where
  "terminated_executor i t =
     \<lparr>id_executor = i, trade_type = BUY, status = TERMINATED, is_active = False,
      is_trading = False, timestamp = 0, close_timestamp = t,
      custom_info = [''level_id'' \<mapsto> ''buy_1'']\<rparr>"

definition e1 :: executor_info where
  "e1 = \<lparr>id_executor = ''e1'', trade_type = BUY, status = ACTIVE, is_active = True,
          is_trading = False, timestamp = 0, close_timestamp = 0,
          custom_info = [''level_id'' \<mapsto> ''buy_0'']\<rparr>"

definition e2 :: executor_info where
  "e2 = \<lparr>id_executor = ''e2'', trade_type = SELL, status = TRADING, is_active = True,
          is_trading = True, timestamp = 0, close_timestamp = 0,
          custom_info = [''level_id'' \<mapsto> ''sell_1'']\<rparr>"

definition busy :: controller where
  "busy =
     \<lparr>config = scenario_config,
      executors_info =
        [e1, e2, terminated_executor ''t1'' 30, terminated_executor ''t2'' 10,
         terminated_executor ''t3'' 20, terminated_executor ''t4'' 60,
         terminated_executor ''t5'' 40, terminated_executor ''t6'' 50],
      processed_data = [''reference_price'' \<mapsto> 100, ''spread_multiplier'' \<mapsto> 1]\<rparr>"

text \<open>
  Two more inputs of the constructor: one without buy levels, and one whose two buy
  weights are zero.
\<close>

definition one_sided_input :: config_input where
  "one_sided_input = scenario_input\<lparr>in_buy_spreads := SpreadsList []\<rparr>"

definition one_sided_config :: controller_config where
  "one_sided_config = scenario_config\<lparr>buy_spreads := [], buy_amounts_pct := []\<rparr>"

definition zero_weight_input :: config_input where
  "zero_weight_input = scenario_input\<lparr>in_buy_amounts_pct := Some (AmountsList [0, 0])\<rparr>"

text \<open>The fields of the second input after the field validators, before the root validator.\<close>

definition zero_weight_fields :: controller_config where
  "zero_weight_fields = scenario_config\<lparr>buy_amounts_pct := [0, 0], sell_amounts_pct := [1, 1]\<rparr>"

text \<open>
  Three buy levels with the weights 1, 15 and 6, two sell levels of equal weight, and the
  configuration that float arithmetic builds from them: the buy fractions are the doubles
  next to 1/22, 15/22 and 6/22, which Python prints as \<open>0.045454545454545456\<close>,
  \<open>0.6818181818181818\<close> and \<open>0.2727272727272727\<close>.
\<close>

definition weighted_input :: config_input where
  "weighted_input =
     \<lparr>in_id = ''mm'', in_connector_name = ''binance_perpetual'',
      in_trading_pair = ''WLD-USDT'', in_total_amount_quote = 100,
      in_buy_spreads = SpreadsList [1 / 128, 1 / 64, 1 / 32],
      in_buy_amounts_pct = Some (AmountsList [1, 15, 6]),
      in_sell_spreads = SpreadsList [1 / 128, 1 / 64], in_sell_amounts_pct = None,
      in_executor_refresh_time = 300, in_cooldown_time = 15, in_leverage = 20,
      in_position_mode = HEDGE, in_closed_executors_buffer = 10\<rparr>"

definition weighted_config :: controller_config where
  "weighted_config =
     \<lparr>id_config = ''mm'', connector_name = ''binance_perpetual'',
      trading_pair = ''WLD-USDT'', total_amount_quote = 100,
      buy_spreads = [1 / 128, 1 / 64, 1 / 32],
      buy_amounts_pct =
        [3275345183542179 / 2 ^ 56, 6141272219141585 / 2 ^ 53, 1228254443828317 / 2 ^ 52],
      sell_spreads = [1 / 128, 1 / 64], sell_amounts_pct = [1 / 2, 1 / 2],
      executor_refresh_time = 300, cooldown_time = 15, leverage = 20,
      position_mode = HEDGE, closed_executors_buffer = 10\<rparr>"

text \<open>A strategy's \<^verbatim>\<open>executors_to_early_stop\<close> that stops the executors that trade.\<close>

definition stop_trading :: "controller \<Rightarrow> 'c ExecutorAction list" where
  "stop_trading self =
     map (\<lambda>executor. StopExecutorAction (id_executor executor))
       (filter is_trading (executors_info self))"

text \<open>A strategy's \<^verbatim>\<open>get_executor_config\<close> that keeps its three arguments.\<close>

definition record_config :: "string \<Rightarrow> real \<Rightarrow> real \<Rightarrow> error + string \<times> real \<times> real" where
  "record_config level_id price amount = Inr (level_id, price, amount)"

section \<open>Auxiliary notions of the proofs\<close>

text \<open>The side that an update of \<open>side\<close> does not name.\<close>

fun other_side :: "TradeType \<Rightarrow> TradeType" where
  "other_side BUY = SELL"
| "other_side SELL = BUY"

text \<open>A list of weights that is not empty and sums to zero.\<close>

definition zero_sum :: "real list \<Rightarrow> bool" where
  "zero_sum amounts \<longleftrightarrow> amounts \<noteq> [] \<and> sum_list amounts = 0"

text \<open>The two kinds of action.\<close>

fun is_create :: "'c ExecutorAction \<Rightarrow> bool" where
  "is_create (CreateExecutorAction controller_id executor_config) = True"
| "is_create (StopExecutorAction executor_id) = False"

fun is_stop :: "'c ExecutorAction \<Rightarrow> bool" where
  "is_stop (CreateExecutorAction controller_id executor_config) = False"
| "is_stop (StopExecutorAction executor_id) = True"

definition isdigit :: "char \<Rightarrow> bool" where
  "isdigit c \<longleftrightarrow> digit_val c \<noteq> None"

definition digits_value :: "nat \<Rightarrow> string \<Rightarrow> nat" where
  "digits_value acc s = foldl (\<lambda>a c. 10 * a + the (digit_val c)) acc s"

section \<open>Decimal text of an integer reads back\<close>

lemma name_lower: "lower ''BUY'' = ''buy''" "lower ''SELL'' = ''sell''"
  by (simp_all add: lower_def ascii_upper_def)

lemma digit_val_digit_char: "d < 10 \<Longrightarrow> digit_val (digit_char d) = Some d"
proof -
  assume "d < 10"
  then have "d \<in> {0, 1, 2, 3, 4, 5, 6, 7, 8, 9}" by auto
  then show ?thesis
    by (auto simp: digit_val_def digit_char_def)
qed

lemma isdigit_props:
  "isdigit c \<Longrightarrow>
   c \<noteq> CHR ''_'' \<and> c \<noteq> CHR ''-'' \<and> c \<noteq> CHR ''+'' \<and> \<not> isspace c \<and> \<not> int_isspace c"
  by (auto simp: isdigit_def digit_val_def isspace_def int_isspace_def split: if_splits)

lemma isdigit_digit_char: "d < 10 \<Longrightarrow> isdigit (digit_char d)"
  by (simp add: isdigit_def digit_val_digit_char)

lemma str_nat_digits: "list_all isdigit (str_nat n)"
proof (induction n rule: str_nat.induct)
  case (1 n)
  show ?case
  proof (cases "n < 10")
    case True
    then show ?thesis by (subst str_nat.simps) (simp add: isdigit_digit_char)
  next
    case False
    with 1 show ?thesis by (subst str_nat.simps) (simp add: isdigit_digit_char)
  qed
qed

lemma str_nat_nonempty: "str_nat n \<noteq> []"
  by (subst str_nat.simps) simp

lemma int_digits_value: "list_all isdigit s \<Longrightarrow> int_digits acc s = Some (digits_value acc s)"
proof (induction acc s rule: int_digits.induct)
  case (1 acc)
  then show ?case by (simp add: digits_value_def)
next
  case (2 acc c)
  then show ?case by (auto simp: digits_value_def isdigit_def)
next
  case (3 acc c d ds)
  from "3.prems" have c: "c \<noteq> CHR ''_''" and dc: "isdigit c" and rest: "list_all isdigit (d # ds)"
    using isdigit_props by auto
  from dc obtain v where v: "digit_val c = Some v" by (auto simp: isdigit_def)
  from "3.IH"(2)[OF c v rest] show ?case using c v
    by (simp add: digits_value_def)
qed

lemma digits_value_str_nat: "digits_value 0 (str_nat n) = n"
proof (induction n rule: str_nat.induct)
  case (1 n)
  show ?case
  proof (cases "n < 10")
    case True
    then show ?thesis
      by (subst str_nat.simps) (simp add: digits_value_def digit_val_digit_char)
  next
    case False
    with 1 have "digits_value 0 (str_nat (n div 10)) = n div 10" by simp
    with False show ?thesis
      by (subst str_nat.simps) (simp add: digits_value_def digit_val_digit_char)
  qed
qed

lemma int_literal_str_nat: "int_literal (str_nat n) = Some n"
proof -
  obtain c cs where s: "str_nat n = c # cs"
    using str_nat_nonempty[of n] by (cases "str_nat n") auto
  have all: "list_all isdigit (c # cs)" using str_nat_digits[of n] s by simp
  then obtain v where v: "digit_val c = Some v" by (auto simp: isdigit_def)
  have "digits_value 0 (c # cs) = digits_value v cs" using v by (simp add: digits_value_def)
  then have "digits_value v cs = n" using digits_value_str_nat[of n] s by simp
  moreover have "int_digits v cs = Some (digits_value v cs)"
    using all by (simp add: int_digits_value)
  ultimately show ?thesis using s v by (simp add: int_literal_def)
qed

lemma dropWhile_none: "\<forall>c\<in>set s. \<not> P c \<Longrightarrow> dropWhile P s = s"
  by (cases s) auto

lemma strip_digits: "list_all isdigit s \<Longrightarrow> int_strip s = s"
proof -
  assume a: "list_all isdigit s"
  then have "\<forall>c\<in>set s. \<not> int_isspace c" "\<forall>c\<in>set (rev s). \<not> int_isspace c"
    using isdigit_props by (auto simp: list_all_iff)
  then show ?thesis by (simp add: int_strip_def dropWhile_none)
qed

lemma py_int_str_nat: "py_int (str_nat n) = Inr (int n)"
proof -
  obtain c cs where s: "str_nat n = c # cs"
    using str_nat_nonempty[of n] by (cases "str_nat n") auto
  have all: "list_all isdigit (c # cs)" using str_nat_digits[of n] s by simp
  then have c: "c \<noteq> CHR ''-''" "c \<noteq> CHR ''+''" using isdigit_props[of c] by auto
  have "int_strip (str_nat n) = c # cs" using strip_digits[OF str_nat_digits[of n]] s by simp
  moreover have "int_literal (c # cs) = Some n" using int_literal_str_nat[of n] s by simp
  ultimately show ?thesis using c by (simp add: py_int_def)
qed

lemma split_no_sep: "sep \<notin> set s \<Longrightarrow> split sep s = [s]"
  by (induction s) auto

lemma split_prefix: "sep \<notin> set p \<Longrightarrow> split sep (p @ sep # s) = p # split sep s"
  by (induction p) auto

lemma level_id_split:
  "0 \<le> level \<Longrightarrow>
   split CHR ''_'' (get_level_id_from_side t level) = [lower (name t), str_nat (nat level)]"
proof -
  assume "0 \<le> level"
  have "CHR ''_'' \<notin> set (str_nat (nat level))"
    using str_nat_digits[of "nat level"] isdigit_props by (auto simp: list_all_iff)
  then have "split CHR ''_'' (str_nat (nat level)) = [str_nat (nat level)]"
    by (rule split_no_sep)
  moreover have "CHR ''_'' \<notin> set (lower (name t))" by (cases t) (simp_all add: name_lower)
  ultimately show ?thesis using \<open>0 \<le> level\<close>
    by (simp add: get_level_id_from_side_def str_int_def split_prefix)
qed

text \<open>
  C10. A level id names its side and its index: for either side and every index
  \<open>0 \<le> level\<close>, reading the id \<open>get_level_id_from_side side level\<close> back gives that side
  (\<open>get_trade_type_from_level_id\<close>) and that index (\<open>get_level_from_level_id\<close>, which does
  not raise).
\<close>

theorem level_id_roundtrip:
  assumes "0 \<le> level"
  shows "get_trade_type_from_level_id (get_level_id_from_side side level) = side \<and>
         get_level_from_level_id (get_level_id_from_side side level) = Inr level"
proof
  show "get_trade_type_from_level_id (get_level_id_from_side side level) = side"
    by (cases side)
      (simp_all add: get_trade_type_from_level_id_def get_level_id_from_side_def name_lower
        startswith_def)
  show "get_level_from_level_id (get_level_id_from_side side level) = Inr level"
    using assms
    by (simp add: get_level_from_level_id_def level_id_split getitem_def py_int_str_nat)
qed

theorem level_id_roundtrip_witness:
  "(0 :: int) \<le> 12 \<and> get_level_id_from_side SELL 12 = ''sell_12'' \<and>
   get_trade_type_from_level_id ''sell_12'' = SELL \<and>
   get_level_from_level_id ''sell_12'' = Inr 12"
proof -
  have id: "get_level_id_from_side SELL 12 = ''sell_12''"
    by (simp add: get_level_id_from_side_def name_lower str_int_def str_nat.simps digit_char_def)
  have "(0 :: int) \<le> 12" by simp
  from level_id_roundtrip [OF this, of SELL] show ?thesis
    unfolding id by (simp add: id)
qed

section \<open>Prices and the scenario of the spec\<close>

lemmas price_defs =
  get_price_and_amount_def upper_def ascii_upper_def TradeType_getitem_def
  get_spreads_and_amounts_in_quote_def dict_getitem_def py_int_def int_strip_def int_isspace_def strip_def isspace_def
  int_literal_def digit_val_def getitem_def py_eq_def truediv_def

lemma build_scenario: "build_config py_float scenario_input = Inr scenario_config"
  by (simp add: build_config_def validate_fields_def scenario_input_def scenario_config_def
      parse_spreads_def parse_and_validate_amounts_def normalize_amounts_def truediv_def
      scalars_def)

lemma scenario_levels:
  "levels_to_execute scenario = Inr [''buy_0'', ''buy_1'', ''sell_0'', ''sell_1'']"
  by (simp add: levels_to_execute_def scenario_def scenario_config_def filter_executors_def
      filter_not_active_levels_def get_not_active_levels_ids_def get_level_id_from_side_def
      name_lower str_int_def str_nat.simps digit_char_def upt_rec)

lemma scenario_prices:
  "get_price_and_amount scenario ''buy_0'' = Inr (101, 50 / 101)"
  "get_price_and_amount scenario ''buy_1'' = Inr (102, 50 / 102)"
  "get_price_and_amount scenario ''sell_0'' = Inr (101, 50 / 101)"
  "get_price_and_amount scenario ''sell_1'' = Inr (102, 50 / 102)"
  by (simp_all add: price_defs scenario_def scenario_config_def)

lemma scenario_create:
  "create_actions_proposal record_config scenario = Inr
     [CreateExecutorAction ''mm'' (''buy_0'', 101, 50 / 101),
      CreateExecutorAction ''mm'' (''buy_1'', 102, 50 / 102),
      CreateExecutorAction ''mm'' (''sell_0'', 101, 50 / 101),
      CreateExecutorAction ''mm'' (''sell_1'', 102, 50 / 102)]"
  by (simp add: create_actions_proposal_def scenario_levels create_action_def scenario_prices
      record_config_def)
    (simp add: scenario_def scenario_config_def)

lemma scenario_no_stops:
  "stop_actions_proposal executors_to_early_stop time_time scenario = []"
  "store_actions_proposal scenario = []"
  by (simp_all add: stop_actions_proposal_def executors_to_refresh_def
      executors_to_early_stop_def store_actions_proposal_def scenario_def filter_executors_def
      sorted_reverse_def EXECUTORS_BUFFER_def)

lemma scenario_actions_computed:
  "determine_executor_actions record_config executors_to_early_stop time_time scenario = Inr
     [CreateExecutorAction ''mm'' (''buy_0'', 101, 50 / 101),
      CreateExecutorAction ''mm'' (''buy_1'', 102, 50 / 102),
      CreateExecutorAction ''mm'' (''sell_0'', 101, 50 / 101),
      CreateExecutorAction ''mm'' (''sell_1'', 102, 50 / 102)]"
  by (simp add: determine_executor_actions_def scenario_create scenario_no_stops)

text \<open>
  C1, at a buy level. In the scenario the reference price is 100 and the first buy level
  has the spread 0.01; \<open>get_price_and_amount\<close> on its level id \<open>buy_0\<close> returns the
  price 101, above the reference price, where the claim has a price below it. The text
  \<open>buy\<close> split off the level id is compared with the member \<open>BUY\<close>, which no string
  equals, so the side multiplier is 1 on either side.
\<close>

theorem buy_level_priced_above_reference:
  "get_level_id_from_side BUY 0 = ''buy_0'' \<and>
   dict_getitem (processed_data scenario) ''reference_price'' = Inr 100 \<and>
   getitem (buy_spreads (config scenario)) 0 = Inr (1 / 100) \<and>
   get_price_and_amount scenario ''buy_0'' = Inr (101, 50 / 101)"
proof -
  have "get_level_id_from_side BUY 0 = ''buy_0''"
    by (simp add: get_level_id_from_side_def name_lower str_int_def str_nat.simps
        digit_char_def)
  moreover have "dict_getitem (processed_data scenario) ''reference_price'' = Inr 100"
    by (simp add: dict_getitem_def scenario_def)
  moreover have "getitem (buy_spreads (config scenario)) 0 = Inr (1 / 100)"
    by (simp add: getitem_def scenario_def scenario_config_def)
  ultimately show ?thesis
    by (simp add: scenario_prices)
qed

text \<open>
  C2, as amended. The configuration of the scenario is what the constructor builds from
  the scenario's input. With it and the early-stop pass of the base class,
  \<open>determine_executor_actions\<close> returns exactly four
  \<open>CreateExecutorAction\<close>s, for \<open>buy_0\<close>, \<open>buy_1\<close>, \<open>sell_0\<close>, \<open>sell_1\<close> in this order, and
  no stop action. Every level gets half of the 100 of its own side, so the amount is 50
  divided by the price; \<open>sell_0\<close> is priced at 101 and \<open>sell_1\<close> at 102. The prices of the
  two buy levels are left open.
\<close>

theorem scenario_actions:
  "build_config py_float scenario_input = Inr (config scenario) \<and>
   (\<exists>p0 p1.
      determine_executor_actions record_config executors_to_early_stop time_time scenario = Inr
        [CreateExecutorAction ''mm'' (''buy_0'', p0, 50 / p0),
         CreateExecutorAction ''mm'' (''buy_1'', p1, 50 / p1),
         CreateExecutorAction ''mm'' (''sell_0'', 101, 50 / 101),
         CreateExecutorAction ''mm'' (''sell_1'', 102, 50 / 102)])"
proof
  show "build_config py_float scenario_input = Inr (config scenario)"
    by (simp add: build_scenario scenario_def)
  show "\<exists>p0 p1.
      determine_executor_actions record_config executors_to_early_stop time_time scenario = Inr
        [CreateExecutorAction ''mm'' (''buy_0'', p0, 50 / p0),
         CreateExecutorAction ''mm'' (''buy_1'', p1, 50 / p1),
         CreateExecutorAction ''mm'' (''sell_0'', 101, 50 / 101),
         CreateExecutorAction ''mm'' (''sell_1'', 102, 50 / 102)]"
    unfolding scenario_actions_computed by blast
qed

text \<open>
  C2, as stated, fails: the four actions are not those of the claim, which gives every
  level a quarter of the 100 (amounts 25/99, 25/98, 25/101, 25/102).
\<close>

theorem scenario_actions_not_as_claimed:
  "determine_executor_actions record_config executors_to_early_stop (\<lambda>k. 0) scenario \<noteq> Inr
     [CreateExecutorAction ''mm'' (''buy_0'', 99, 25 / 99),
      CreateExecutorAction ''mm'' (''buy_1'', 98, 25 / 98),
      CreateExecutorAction ''mm'' (''sell_0'', 101, 25 / 101),
      CreateExecutorAction ''mm'' (''sell_1'', 102, 25 / 102)]"
  by (simp add: scenario_actions_computed)

section \<open>The actions of a cycle\<close>

lemma comprehension_Inr:
  "comprehension f xs = Inr ys \<Longrightarrow> list_all2 (\<lambda>x y. f x = Inr y) xs ys"
  by (induction xs arbitrary: ys) (auto split: sum.splits)

lemma comprehension_member:
  "list_all2 (\<lambda>x y. f x = Inr y) xs ys \<Longrightarrow> x \<in> set xs \<Longrightarrow> f x = Inr y \<Longrightarrow> y \<in> set ys"
  by (induction xs ys rule: list_all2_induct) auto

lemma create_actions_are_create:
  "create_actions_proposal gec self = Inr create \<Longrightarrow> list_all is_create create"
proof -
  assume "create_actions_proposal gec self = Inr create"
  then obtain levels where "comprehension (create_action gec self) levels = Inr create"
    by (auto simp: create_actions_proposal_def split: sum.splits)
  then have "list_all2 (\<lambda>l a. create_action gec self l = Inr a) levels create"
    by (rule comprehension_Inr)
  then have "list_all2 (\<lambda>l a. is_create a) levels create"
    by (rule list_all2_mono) (auto simp: create_action_def split: sum.splits prod.splits)
  then show ?thesis
    by (auto simp: list_all_iff list_all2_conv_all_nth in_set_conv_nth)
qed

lemma stop_actions_are_stop:
  "list_all is_stop (executors_to_refresh time_time self :: 'c ExecutorAction list)"
  "list_all is_stop (executors_to_early_stop self :: 'c ExecutorAction list)"
  "list_all is_stop (store_actions_proposal self :: 'c ExecutorAction list)"
  by (auto simp: executors_to_refresh_def executors_to_early_stop_def
      store_actions_proposal_def list_all_iff Let_def)

lemma busy_levels: "levels_to_execute busy = Inr [''buy_1'', ''sell_0'']"
  by (simp add: levels_to_execute_def busy_def scenario_config_def filter_executors_def e1_def
      e2_def terminated_executor_def dict_getitem_def filter_not_active_levels_def
      get_not_active_levels_ids_def get_level_id_from_side_def name_lower str_int_def
      str_nat.simps digit_char_def upt_rec)

lemma busy_prices:
  "get_price_and_amount busy ''buy_1'' = Inr (102, 50 / 102)"
  "get_price_and_amount busy ''sell_0'' = Inr (101, 50 / 101)"
  by (simp_all add: price_defs busy_def scenario_config_def)

lemma busy_create:
  "create_actions_proposal record_config busy = Inr
     [CreateExecutorAction ''mm'' (''buy_1'', 102, 50 / 102),
      CreateExecutorAction ''mm'' (''sell_0'', 101, 50 / 101)]"
  by (simp add: create_actions_proposal_def busy_levels create_action_def busy_prices
      record_config_def)
    (simp add: busy_def scenario_config_def)

lemma busy_refresh: "executors_to_refresh (\<lambda>k. 1000) busy = [StopExecutorAction ''e1'']"
  by (simp add: executors_to_refresh_def busy_def scenario_config_def e1_def e2_def
      terminated_executor_def)

lemma busy_early_stop: "stop_trading busy = [StopExecutorAction ''e2'']"
  by (simp add: stop_trading_def busy_def e1_def e2_def terminated_executor_def)

lemma busy_store:
  "store_actions_proposal busy =
     [StopExecutorAction ''t4'', StopExecutorAction ''t5'', StopExecutorAction ''t6'']"
  by (simp add: store_actions_proposal_def busy_def e1_def e2_def terminated_executor_def
      filter_executors_def sorted_reverse_def EXECUTORS_BUFFER_def)

text \<open>
  C7. For every strategy (its \<open>get_executor_config\<close> and its early-stop pass), snapshot,
  configuration and clock: \<open>determine_executor_actions\<close> raises exactly when the create
  pass raises, with the same exception. Otherwise the list it returns is, in this order,
  the actions of the create pass, which are all \<open>CreateExecutorAction\<close>s, then the
  \<open>StopExecutorAction\<close>s of the refresh pass, then the actions of the early-stop pass,
  then the \<open>StopExecutorAction\<close>s of the buffer pass. The early-stop pass of the base
  class emits nothing.
\<close>

theorem determine_executor_actions_order:
  "(case create_actions_proposal (gec :: string \<Rightarrow> real \<Rightarrow> real \<Rightarrow> error + 'c) self of
      Inl e \<Rightarrow> determine_executor_actions gec early_stop time_time self = Inl e
    | Inr create \<Rightarrow>
        determine_executor_actions gec early_stop time_time self =
          Inr (create @ executors_to_refresh time_time self @ early_stop self @
               store_actions_proposal self) \<and>
        list_all is_create create \<and>
        list_all is_stop (executors_to_refresh time_time self :: 'c ExecutorAction list) \<and>
        list_all is_stop (store_actions_proposal self :: 'c ExecutorAction list)) \<and>
   (executors_to_early_stop self :: 'c ExecutorAction list) = []"
proof (cases "create_actions_proposal gec self")
  case (Inl e)
  then show ?thesis
    by (simp add: determine_executor_actions_def executors_to_early_stop_def)
next
  case (Inr create)
  then have "list_all is_create create" by (rule create_actions_are_create)
  with Inr show ?thesis
    by (simp add: determine_executor_actions_def stop_actions_proposal_def
        stop_actions_are_stop executors_to_early_stop_def)
qed

text \<open>
  The busy snapshot with a strategy that stops trading executors early: two creates, the
  refresh of \<open>e1\<close>, the early stop of \<open>e2\<close>, and the three stops of the buffer pass.
\<close>

theorem determine_executor_actions_order_witness:
  "determine_executor_actions record_config stop_trading (\<lambda>k. 1000) busy = Inr
     [CreateExecutorAction ''mm'' (''buy_1'', 102, 50 / 102),
      CreateExecutorAction ''mm'' (''sell_0'', 101, 50 / 101),
      StopExecutorAction ''e1'',
      StopExecutorAction ''e2'',
      StopExecutorAction ''t4'', StopExecutorAction ''t5'', StopExecutorAction ''t6'']"
  using determine_executor_actions_order
    [where gec = record_config and self = busy and time_time = "\<lambda>k. 1000"
       and early_stop = stop_trading]
  by (simp add: busy_create busy_refresh busy_store busy_early_stop
      executors_to_early_stop_def)

text \<open>
  C8. The buffer pass sorts the terminated executors by close timestamp, latest first (the
  sorted list holds the same executors), and counts them. If there are more than
  \<open>EXECUTORS_BUFFER = 5\<close>, it emits a \<open>StopExecutorAction\<close> for every executor of the
  whole snapshot, in snapshot order, from index 5 on, whatever its status; otherwise it
  emits nothing.
\<close>

theorem store_actions_proposal_buffer:
  "EXECUTORS_BUFFER = 5 \<and>
   mset (sorted_reverse close_timestamp
           (filter_executors (executors_info self) (\<lambda>x. status x = TERMINATED))) =
     mset (filter (\<lambda>x. status x = TERMINATED) (executors_info self)) \<and>
   sorted (rev (map close_timestamp
     (sorted_reverse close_timestamp
        (filter_executors (executors_info self) (\<lambda>x. status x = TERMINATED))))) \<and>
   store_actions_proposal self =
     (if length (filter (\<lambda>x. status x = TERMINATED) (executors_info self)) > EXECUTORS_BUFFER
      then map (\<lambda>executor. StopExecutorAction (id_executor executor))
             (drop EXECUTORS_BUFFER (executors_info self))
      else [])"
  by (simp add: store_actions_proposal_def filter_executors_def sorted_reverse_def Let_def
      EXECUTORS_BUFFER_def rev_map [symmetric])

theorem store_actions_proposal_buffer_witness:
  "map id_executor (sorted_reverse close_timestamp
      (filter_executors (executors_info busy) (\<lambda>x. status x = TERMINATED))) =
     [''t4'', ''t6'', ''t5'', ''t1'', ''t3'', ''t2''] \<and>
   map status (drop 5 (executors_info busy)) = [TERMINATED, TERMINATED, TERMINATED] \<and>
   (store_actions_proposal busy :: unit ExecutorAction list) =
     [StopExecutorAction ''t4'', StopExecutorAction ''t5'', StopExecutorAction ''t6'']"
  using store_actions_proposal_buffer [of busy, where ?'a = unit]
  by (simp add: busy_def e1_def e2_def terminated_executor_def filter_executors_def
      sorted_reverse_def EXECUTORS_BUFFER_def)

text \<open>
  C9. Let an executor of the snapshot be active and carry a level id under
  \<open>level_id\<close> in its \<open>custom_info\<close>. Whenever the create pass returns, its actions are
  those of the levels to execute, one for each in order, each configured by the
  strategy for that level at the price and amount computed for it; and the level id of the
  active executor is not among these levels. The create pass does not read the clock and
  does not change the controller: at any time, \<open>determine_executor_actions\<close> (with the
  early-stop pass of the base class) on the same snapshot and configuration returns these
  same create actions, followed by stop actions only.
\<close>

theorem active_level_not_created:
  assumes "executor \<in> set (executors_info self)" and "is_active executor"
    and "custom_info executor ''level_id'' = Some level_id"
    and "create_actions_proposal gec self = Inr create"
  shows "\<exists>levels. levels_to_execute self = Inr levels \<and> level_id \<notin> set levels \<and>
           list_all2 (\<lambda>l a. \<exists>price amount executor_config.
                get_price_and_amount self l = Inr (price, amount) \<and>
                gec l price amount = Inr executor_config \<and>
                a = CreateExecutorAction (id_config (config self)) executor_config)
             levels create \<and>
           (\<forall>time_time. \<exists>stops.
              determine_executor_actions gec executors_to_early_stop time_time self =
                Inr (create @ stops) \<and>
              list_all is_stop stops)"
proof -
  have det: "\<exists>stops. determine_executor_actions gec executors_to_early_stop time_time self =
                 Inr (create @ stops) \<and>
               list_all is_stop stops" for time_time
    using assms(4)
    by (simp add: determine_executor_actions_def stop_actions_proposal_def
        stop_actions_are_stop)
  from assms(4) obtain levels where lv: "levels_to_execute self = Inr levels"
    and cr: "comprehension (create_action gec self) levels = Inr create"
    by (auto simp: create_actions_proposal_def split: sum.splits)
  let ?act = "filter_executors (executors_info self) (\<lambda>e. trade_type e = BUY \<and> is_active e) @
              filter_executors (executors_info self) (\<lambda>e. trade_type e = SELL \<and> is_active e)"
  from lv obtain ids
    where ids: "comprehension (\<lambda>e. dict_getitem (custom_info e) ''level_id'') ?act = Inr ids"
      and levels: "levels = filter_not_active_levels self (get_not_active_levels_ids self ids)"
    by (auto simp: levels_to_execute_def Let_def split: sum.splits)
  have "executor \<in> set ?act"
    using assms(1,2) by (cases "trade_type executor") (auto simp: filter_executors_def)
  with ids have "level_id \<in> set ids"
    using assms(3)
      comprehension_member [of "\<lambda>e. dict_getitem (custom_info e) ''level_id''" ?act ids
        executor level_id]
    by (simp add: comprehension_Inr dict_getitem_def)
  then have "level_id \<notin> set levels"
    by (auto simp: levels filter_not_active_levels_def get_not_active_levels_ids_def)
  moreover from cr have "list_all2 (\<lambda>l a. \<exists>price amount executor_config.
                get_price_and_amount self l = Inr (price, amount) \<and>
                gec l price amount = Inr executor_config \<and>
                a = CreateExecutorAction (id_config (config self)) executor_config)
             levels create"
    by (auto dest!: comprehension_Inr elim!: list_all2_mono simp: create_action_def
        split: sum.splits prod.splits)
  ultimately show ?thesis using lv det by blast
qed

theorem active_level_not_created_witness:
  "e1 \<in> set (executors_info busy) \<and> is_active e1 \<and>
   custom_info e1 ''level_id'' = Some ''buy_0'' \<and>
   create_actions_proposal record_config busy = Inr
     [CreateExecutorAction ''mm'' (''buy_1'', 102, 50 / 102),
      CreateExecutorAction ''mm'' (''sell_0'', 101, 50 / 101)] \<and>
   levels_to_execute busy = Inr [''buy_1'', ''sell_0''] \<and>
   ''buy_0'' \<notin> set [''buy_1'', ''sell_0''] \<and>
   determine_executor_actions record_config executors_to_early_stop (\<lambda>k. 1000) busy = Inr
     ([CreateExecutorAction ''mm'' (''buy_1'', 102, 50 / 102),
       CreateExecutorAction ''mm'' (''sell_0'', 101, 50 / 101)] @
      [StopExecutorAction ''e1'', StopExecutorAction ''t4'', StopExecutorAction ''t5'',
       StopExecutorAction ''t6''])"
proof -
  have a: "e1 \<in> set (executors_info busy)" by (simp add: busy_def)
  have b: "is_active e1" by (simp add: e1_def)
  have c: "custom_info e1 ''level_id'' = Some ''buy_0''" by (simp add: e1_def)
  from active_level_not_created [OF a b c busy_create] a b c show ?thesis
    by (auto simp: busy_create busy_levels determine_executor_actions_def
        stop_actions_proposal_def busy_refresh busy_store executors_to_early_stop_def)
qed

section \<open>Building and updating the configuration\<close>

lemma comprehension_truediv:
  "comprehension (\<lambda>amt. truediv amt t) xs =
     (if xs \<noteq> [] \<and> t = 0 then Inl ZeroDivisionError else Inr (map (\<lambda>a. a / t) xs))"
  by (induction xs) (auto simp: truediv_def)


lemma normalize_amounts_cases:
  "normalize_amounts vals =
     (if zero_sum (buy_amounts_pct vals) then (Some ZeroDivisionError, vals)
      else if zero_sum (sell_amounts_pct vals)
      then (Some ZeroDivisionError,
            vals\<lparr>buy_amounts_pct := map (\<lambda>a. a / sum_list (buy_amounts_pct vals)) (buy_amounts_pct vals)\<rparr>)
      else (None,
            vals\<lparr>buy_amounts_pct := map (\<lambda>a. a / sum_list (buy_amounts_pct vals)) (buy_amounts_pct vals),
                 sell_amounts_pct := map (\<lambda>a. a / sum_list (sell_amounts_pct vals)) (sell_amounts_pct vals)\<rparr>))"
  by (simp add: normalize_amounts_def comprehension_truediv zero_sum_def Let_def)

lemma field_names:
  "(if side = BUY then buy_spreads_name else sell_spreads_name) = spreads_name side"
  "(if side = BUY then buy_amounts_pct_name else sell_amounts_pct_name) = amounts_pct_name side"
  by (cases side; simp)+

lemma amounts_with_field_name_raise:
  "\<exists>e. parse_and_validate_amounts (Some a) vals (FieldStr n) = Inl e"
  by (cases a) (auto simp: parse_and_validate_amounts_def split: sum.splits)

lemma update_parameters_cases:
  "update_parameters py_float self side new_spreads new_amounts_pct =
     (case parse_spreads py_float new_spreads of
        Inl e \<Rightarrow> (Some e, self)
      | Inr l \<Rightarrow>
          (case new_amounts_pct of
             Some a \<Rightarrow>
               (case parse_and_validate_amounts (Some a)
                       (setattr self (spreads_name side) l) (FieldStr (amounts_pct_name side)) of
                  Inl e \<Rightarrow> (Some e, setattr self (spreads_name side) l)
                | Inr am \<Rightarrow>
                    normalize_amounts
                      (setattr (setattr self (spreads_name side) l) (amounts_pct_name side) am))
           | None \<Rightarrow>
               normalize_amounts
                 (setattr (setattr self (spreads_name side) l) (amounts_pct_name side)
                    (map (\<lambda>_. 1) l))))"
proof -
  have g: "getattr (setattr self (spreads_name side) l) (spreads_name side) = l" for l
    by (cases side) simp_all
  show ?thesis
    by (simp add: update_parameters_def field_names Let_def g split: sum.splits option.splits)
qed








lemma set_other:
  "getattr (setattr (setattr self (spreads_name side) l) (amounts_pct_name side) a)
     (amounts_pct_name (other_side side)) = getattr self (amounts_pct_name (other_side side))"
  "getattr (setattr (setattr self (spreads_name side) l) (amounts_pct_name side) a)
     (amounts_pct_name side) = a"
  by (cases side; simp)+

text \<open>
  C4, as amended. \<open>normalize_amounts\<close> raises exactly when a side has at least one weight
  and its weights sum to zero, and what it raises is \<open>ZeroDivisionError\<close>; a side without
  weights is no error. When the field validators accept an input and leave such a side,
  building the configuration ends with \<open>ZeroDivisionError\<close> and no configuration; and
  an update without amounts raises \<open>ZeroDivisionError\<close> when the stored weights of the other
  side are such.
\<close>

theorem zero_sum_raises_ZeroDivisionError:
  "fst (normalize_amounts vals) =
     (if zero_sum (buy_amounts_pct vals) \<or> zero_sum (sell_amounts_pct vals)
      then Some ZeroDivisionError else None) \<and>
   (validate_fields py_float inp = Inr vals \<longrightarrow>
    zero_sum (buy_amounts_pct vals) \<or> zero_sum (sell_amounts_pct vals) \<longrightarrow>
      build_config py_float inp = Inl ZeroDivisionError) \<and>
   (parse_spreads py_float new_spreads = Inr l \<longrightarrow>
    zero_sum (getattr self (amounts_pct_name (other_side side))) \<longrightarrow>
      fst (update_parameters py_float self side new_spreads None) = Some ZeroDivisionError)"
proof (intro conjI impI)
  show n: "fst (normalize_amounts vals) =
     (if zero_sum (buy_amounts_pct vals) \<or> zero_sum (sell_amounts_pct vals)
      then Some ZeroDivisionError else None)" for vals
    by (simp add: normalize_amounts_cases)
  show "build_config py_float inp = Inl ZeroDivisionError"
    if "validate_fields py_float inp = Inr vals"
      and "zero_sum (buy_amounts_pct vals) \<or> zero_sum (sell_amounts_pct vals)"
    using that n [of vals]
    by (cases "normalize_amounts vals") (auto simp: build_config_def)
  show "fst (update_parameters py_float self side new_spreads None) = Some ZeroDivisionError"
    if p: "parse_spreads py_float new_spreads = Inr l"
      and z: "zero_sum (getattr self (amounts_pct_name (other_side side)))"
  proof -
    let ?v = "setattr (setattr self (spreads_name side) l) (amounts_pct_name side) (map (\<lambda>_. 1) l)"
    have "zero_sum (getattr ?v (amounts_pct_name (other_side side)))"
      using z by (simp add: set_other)
    then have "zero_sum (buy_amounts_pct ?v) \<or> zero_sum (sell_amounts_pct ?v)"
      by (cases side) auto
    then show ?thesis
      using p n [of ?v] by (simp add: update_parameters_cases)
  qed
qed

lemma validate_zero_weight: "validate_fields py_float zero_weight_input = Inr zero_weight_fields"
  by (simp add: validate_fields_def zero_weight_input_def zero_weight_fields_def scenario_input_def
      scenario_config_def parse_spreads_def parse_and_validate_amounts_def scalars_def)

lemma build_zero_weight: "build_config py_float zero_weight_input = Inl ZeroDivisionError"
  by (simp add: build_config_def validate_zero_weight normalize_amounts_cases zero_sum_def
      zero_weight_fields_def)

lemma build_one_sided: "build_config py_float one_sided_input = Inr one_sided_config"
  by (simp add: build_config_def validate_fields_def one_sided_input_def one_sided_config_def
      scenario_input_def scenario_config_def parse_spreads_def parse_and_validate_amounts_def
      normalize_amounts_cases zero_sum_def scalars_def)

text \<open>Two buy weights 0: the instance of C4 as amended.\<close>

theorem zero_sum_raises_ZeroDivisionError_witness:
  "validate_fields no_float zero_weight_input = Inr zero_weight_fields \<and>
   zero_sum (buy_amounts_pct zero_weight_fields) \<and>
   fst (normalize_amounts zero_weight_fields) = Some ZeroDivisionError \<and>
   build_config no_float zero_weight_input = Inl ZeroDivisionError \<and>
   parse_spreads no_float (SpreadsList [3 / 100]) = Inr [3 / 100] \<and>
   zero_sum (getattr zero_weight_fields (amounts_pct_name (other_side SELL))) \<and>
   fst (update_parameters no_float zero_weight_fields SELL (SpreadsList [3 / 100]) None) =
     Some ZeroDivisionError"
proof -
  have z: "zero_sum (buy_amounts_pct zero_weight_fields)"
    by (simp add: zero_sum_def zero_weight_fields_def)
  have p: "parse_spreads no_float (SpreadsList [3 / 100]) = Inr [3 / 100]"
    by (simp add: parse_spreads_def)
  from zero_sum_raises_ZeroDivisionError
    [where vals = zero_weight_fields and py_float = no_float and inp = zero_weight_input
       and new_spreads = "SpreadsList [3 / 100]" and l = "[3 / 100]"
       and self = zero_weight_fields and side = SELL]
  show ?thesis
    using z p by (simp add: validate_zero_weight)
qed

text \<open>
  C4, as stated, fails: with the buy weights \<open>[0, 0]\<close> the constructor ends with
  \<open>ZeroDivisionError\<close>, not with the \<open>ValueError\<close> of a validator; and without buy levels
  the buy weights sum to zero and a configuration is built.
\<close>

theorem zero_weights_raise_no_ValueError:
  "build_config no_float zero_weight_input = Inl ZeroDivisionError \<and>
   build_config no_float zero_weight_input \<noteq> Inl ValueError \<and>
   build_config no_float one_sided_input = Inr one_sided_config \<and>
   sum_list (buy_amounts_pct one_sided_config) = 0"
  by (simp add: build_zero_weight build_one_sided one_sided_config_def)




lemma normalize_keeps:
  "getattr (snd (normalize_amounts vals)) (spreads_name side) = getattr vals (spreads_name side)"
  "total_amount_quote (snd (normalize_amounts vals)) = total_amount_quote vals"
  "executor_refresh_time (snd (normalize_amounts vals)) = executor_refresh_time vals"
  "cooldown_time (snd (normalize_amounts vals)) = cooldown_time vals"
  "leverage (snd (normalize_amounts vals)) = leverage vals"
  "position_mode (snd (normalize_amounts vals)) = position_mode vals"
  "closed_executors_buffer (snd (normalize_amounts vals)) = closed_executors_buffer vals"
  by (cases side; simp add: normalize_amounts_cases)+

lemma setattr_keeps:
  "getattr (setattr self (spreads_name side) l) (spreads_name side) = l"
  "getattr (setattr self (spreads_name side) l) (spreads_name (other_side side)) =
     getattr self (spreads_name (other_side side))"
  "getattr (setattr self (amounts_pct_name side) a) (spreads_name side') =
     getattr self (spreads_name side')"
  by (cases side; cases side'; simp)+

lemma setattr_scalars:
  "total_amount_quote (setattr self n l) = total_amount_quote self"
  "executor_refresh_time (setattr self n l) = executor_refresh_time self"
  "cooldown_time (setattr self n l) = cooldown_time self"
  "leverage (setattr self n l) = leverage self"
  "position_mode (setattr self n l) = position_mode self"
  "closed_executors_buffer (setattr self n l) = closed_executors_buffer self"
  by (cases n; simp)+

text \<open>
  C5, as amended. \<open>update_parameters\<close> stores the new spreads before it parses the
  amounts and normalizes. If parsing the new spreads fails, the configuration is left
  exactly as it was. If the spreads parse and a later step fails, the updated side holds
  the new spreads, and the other side's spreads and the scalar fields are as before; in
  particular, when the new amounts are text that does not parse, the call raises the
  parser's exception with the side's spreads replaced and nothing else changed.
\<close>

theorem update_parameters_failure:
  "(parse_spreads py_float new_spreads = Inl e \<longrightarrow>
      update_parameters py_float self side new_spreads new_amounts_pct = (Some e, self)) \<and>
   (parse_spreads py_float new_spreads = Inr l \<longrightarrow>
    update_parameters py_float self side new_spreads new_amounts_pct = (Some e, self') \<longrightarrow>
      getattr self' (spreads_name side) = l \<and>
      getattr self' (spreads_name (other_side side)) =
        getattr self (spreads_name (other_side side)) \<and>
      total_amount_quote self' = total_amount_quote self \<and>
      executor_refresh_time self' = executor_refresh_time self \<and>
      cooldown_time self' = cooldown_time self \<and>
      leverage self' = leverage self \<and>
      position_mode self' = position_mode self \<and>
      closed_executors_buffer self' = closed_executors_buffer self) \<and>
   (parse_spreads py_float new_spreads = Inr l \<longrightarrow>
    comprehension (\<lambda>x. py_int (strip x)) (split CHR '','' s) = Inl e \<longrightarrow>
      update_parameters py_float self side new_spreads (Some (AmountsStr s)) =
        (Some e, setattr self (spreads_name side) l))"
proof (intro conjI impI)
  assume "parse_spreads py_float new_spreads = Inl e"
  then show "update_parameters py_float self side new_spreads new_amounts_pct = (Some e, self)"
    by (simp add: update_parameters_cases)
next
  assume p: "parse_spreads py_float new_spreads = Inr l"
    and u: "update_parameters py_float self side new_spreads new_amounts_pct = (Some e, self')"
  let ?s1 = "setattr self (spreads_name side) l"
  have "self' = ?s1 \<or> (\<exists>a. self' = snd (normalize_amounts (setattr ?s1 (amounts_pct_name side) a)))"
  proof (cases new_amounts_pct)
    case None
    with p u show ?thesis
      by (simp add: update_parameters_cases) (metis snd_conv)
  next
    case (Some a)
    with p u show ?thesis
      by (auto simp: update_parameters_cases split: sum.splits) (metis snd_conv)
  qed
  then show "getattr self' (spreads_name side) = l"
    and "getattr self' (spreads_name (other_side side)) =
           getattr self (spreads_name (other_side side))"
    and "total_amount_quote self' = total_amount_quote self"
    and "executor_refresh_time self' = executor_refresh_time self"
    and "cooldown_time self' = cooldown_time self"
    and "leverage self' = leverage self"
    and "position_mode self' = position_mode self"
    and "closed_executors_buffer self' = closed_executors_buffer self"
    by (auto simp: normalize_keeps setattr_keeps setattr_scalars)
next
  assume "parse_spreads py_float new_spreads = Inr l"
    and "comprehension (\<lambda>x. py_int (strip x)) (split CHR '','' s) = Inl e"
  then show "update_parameters py_float self side new_spreads (Some (AmountsStr s)) =
        (Some e, setattr self (spreads_name side) l)"
    by (simp add: update_parameters_cases parse_and_validate_amounts_def)
qed

lemma unparsable_amounts:
  "comprehension (\<lambda>x. py_int (strip x)) (split CHR '','' ''50, abc'') = Inl ValueError"
  by (simp add: py_int_def int_strip_def int_isspace_def strip_def isspace_def int_literal_def digit_val_def)

lemma update_unparsable:
  "update_parameters py_float scenario_config BUY (SpreadsList [3 / 100])
       (Some (AmountsStr ''50, abc'')) =
     (Some ValueError, scenario_config\<lparr>buy_spreads := [3 / 100]\<rparr>)"
  by (simp add: update_parameters_def parse_spreads_def parse_and_validate_amounts_def
      py_int_def int_strip_def int_isspace_def strip_def isspace_def int_literal_def digit_val_def)

text \<open>Spreads that do not parse, and amounts that do not parse.\<close>

theorem update_parameters_failure_witness:
  "parse_spreads no_float (SpreadsStr ''0.01, abc'') = Inl ValueError \<and>
   update_parameters no_float scenario_config BUY (SpreadsStr ''0.01, abc'') None =
     (Some ValueError, scenario_config) \<and>
   parse_spreads no_float (SpreadsList [3 / 100]) = Inr [3 / 100] \<and>
   comprehension (\<lambda>x. py_int (strip x)) (split CHR '','' ''50, abc'') = Inl ValueError \<and>
   update_parameters no_float scenario_config BUY (SpreadsList [3 / 100])
       (Some (AmountsStr ''50, abc'')) =
     (Some ValueError, setattr scenario_config (spreads_name BUY) [3 / 100]) \<and>
   getattr (setattr scenario_config (spreads_name BUY) [3 / 100]) (spreads_name BUY) = [3 / 100]"
proof -
  have a: "parse_spreads no_float (SpreadsStr ''0.01, abc'') = Inl ValueError"
    by (simp add: parse_spreads_def no_float_def)
  have b: "parse_spreads no_float (SpreadsList [3 / 100]) = Inr [3 / 100]"
    by (simp add: parse_spreads_def)
  from update_parameters_failure
    [where py_float = no_float and new_spreads = "SpreadsStr ''0.01, abc''" and e = ValueError
       and self = scenario_config and side = BUY and new_amounts_pct = None]
    update_parameters_failure
    [where py_float = no_float and new_spreads = "SpreadsList [3 / 100]" and e = ValueError
       and self = scenario_config and side = BUY and l = "[3 / 100]" and s = "''50, abc''"
       and new_amounts_pct = "Some (AmountsStr ''50, abc'')"
       and self' = "setattr scenario_config (spreads_name BUY) [3 / 100]"]
  show ?thesis
    using a b unparsable_amounts by simp
qed

text \<open>
  C5, as stated, fails: an update of the buy side with amounts that do not parse raises
  and leaves the new buy spreads in place beside the old buy amounts.
\<close>

theorem update_parameters_not_atomic:
  "update_parameters no_float scenario_config BUY (SpreadsList [3 / 100])
       (Some (AmountsStr ''50, abc'')) =
     (Some ValueError, scenario_config\<lparr>buy_spreads := [3 / 100]\<rparr>) \<and>
   buy_spreads (scenario_config\<lparr>buy_spreads := [3 / 100]\<rparr>) \<noteq> buy_spreads scenario_config \<and>
   buy_amounts_pct (scenario_config\<lparr>buy_spreads := [3 / 100]\<rparr>) = buy_amounts_pct scenario_config"
  by (simp add: update_unparsable) (simp add: scenario_config_def)

section \<open>Updating one side in float arithmetic\<close>

lemma spacing_numeral:
  "spacing_below (numeral k) x =
     (if x < 1 then spacing_below (pred_numeral k) (2 * x) / 2 else 1 / 2 ^ 52)"
  "spacing_above (numeral k) x =
     (if 2 \<le> x then 2 * spacing_above (pred_numeral k) (x / 2) else 1 / 2 ^ 52)"
  by (simp_all add: numeral_eq_Suc)

lemmas double_defs =
  round_double_def spacing_def spacing_numeral round_half_even_def Let_def

lemma comprehension_float_truediv:
  "comprehension (\<lambda>amt. float_truediv amt t) xs =
     (if xs \<noteq> [] \<and> t = 0 then Inl ZeroDivisionError
      else Inr (map (\<lambda>a. round_double (a / t)) xs))"
  by (induction xs) (auto simp: float_truediv_def)

lemma normalize_amounts_float_cases:
  "normalize_amounts_float vals =
     (if buy_amounts_pct vals \<noteq> [] \<and> float_sum (buy_amounts_pct vals) = 0
      then (Some ZeroDivisionError, vals)
      else if sell_amounts_pct vals \<noteq> [] \<and> float_sum (sell_amounts_pct vals) = 0
      then (Some ZeroDivisionError,
            vals\<lparr>buy_amounts_pct :=
                   map (\<lambda>a. round_double (a / float_sum (buy_amounts_pct vals)))
                     (buy_amounts_pct vals)\<rparr>)
      else (None,
            vals\<lparr>buy_amounts_pct :=
                   map (\<lambda>a. round_double (a / float_sum (buy_amounts_pct vals)))
                     (buy_amounts_pct vals),
                 sell_amounts_pct :=
                   map (\<lambda>a. round_double (a / float_sum (sell_amounts_pct vals)))
                     (sell_amounts_pct vals)\<rparr>))"
  by (simp add: normalize_amounts_float_def comprehension_float_truediv Let_def)

lemma normalize_amounts_float_success:
  assumes "normalize_amounts_float vals = (None, c)"
  shows "c = vals\<lparr>buy_amounts_pct :=
                   map (\<lambda>a. round_double (a / float_sum (buy_amounts_pct vals)))
                     (buy_amounts_pct vals),
                 sell_amounts_pct :=
                   map (\<lambda>a. round_double (a / float_sum (sell_amounts_pct vals)))
                     (sell_amounts_pct vals)\<rparr>"
  using assms by (simp add: normalize_amounts_float_cases split: if_splits)

lemma update_parameters_float_success:
  assumes "update_parameters_float py_float self side new_spreads new_amounts_pct = (None, c)"
  shows "\<exists>l. parse_spreads py_float new_spreads = Inr l \<and> new_amounts_pct = None \<and>
           normalize_amounts_float
             (setattr (setattr self (spreads_name side) l) (amounts_pct_name side)
                (map (\<lambda>_. 1) l)) = (None, c)"
proof (cases "parse_spreads py_float new_spreads")
  case (Inl e)
  with assms show ?thesis by (simp add: update_parameters_float_def)
next
  case (Inr l)
  have g: "getattr (setattr self (spreads_name side) l) (spreads_name side) = l"
    by (cases side) simp_all
  show ?thesis
  proof (cases new_amounts_pct)
    case None
    with assms Inr show ?thesis
      by (simp add: update_parameters_float_def field_names Let_def g)
  next
    case (Some a)
    obtain e where "parse_and_validate_amounts (Some a)
        (setattr self (spreads_name side) l) (FieldStr (amounts_pct_name side)) = Inl e"
      using amounts_with_field_name_raise by blast
    with assms Inr Some show ?thesis
      by (simp add: update_parameters_float_def field_names Let_def)
  qed
qed

lemma redivide_by_one:
  assumes "float_sum xs = 1" and "list_all is_double xs"
  shows "map (\<lambda>a. round_double (a / float_sum xs)) xs = xs"
proof -
  have "round_double (a / float_sum xs) = a" if "a \<in> set xs" for a
    using assms that by (simp add: is_double_def list_all_iff)
  then show ?thesis by (simp add: map_idI)
qed

text \<open>
  C6, as amended. For every configuration and every successful \<open>update_parameters\<close> on one
  side, with the arithmetic of floats: the other side's spreads and every scalar field
  are as they were; the other side's amounts are each divided once more by their float
  sum and rounded. They are as they were when that sum is exactly 1 (the amounts being
  doubles), and can otherwise differ from the old ones by a rounding error.
\<close>

theorem update_parameters_float_frame:
  assumes "update_parameters_float py_float self side new_spreads new_amounts_pct = (None, self')"
  shows "getattr self' (spreads_name (other_side side)) =
           getattr self (spreads_name (other_side side)) \<and>
         getattr self' (amounts_pct_name (other_side side)) =
           map (\<lambda>amt. round_double
                         (amt / float_sum (getattr self (amounts_pct_name (other_side side)))))
             (getattr self (amounts_pct_name (other_side side))) \<and>
         (float_sum (getattr self (amounts_pct_name (other_side side))) = 1 \<and>
          list_all is_double (getattr self (amounts_pct_name (other_side side))) \<longrightarrow>
            getattr self' (amounts_pct_name (other_side side)) =
              getattr self (amounts_pct_name (other_side side))) \<and>
         total_amount_quote self' = total_amount_quote self \<and>
         executor_refresh_time self' = executor_refresh_time self \<and>
         cooldown_time self' = cooldown_time self \<and>
         leverage self' = leverage self \<and>
         position_mode self' = position_mode self \<and>
         closed_executors_buffer self' = closed_executors_buffer self \<and>
         id_config self' = id_config self \<and> connector_name self' = connector_name self \<and>
         trading_pair self' = trading_pair self"
proof -
  from assms obtain l where n: "normalize_amounts_float
             (setattr (setattr self (spreads_name side) l) (amounts_pct_name side)
                (map (\<lambda>_. 1) l)) = (None, self')"
    using update_parameters_float_success by blast
  let ?old = "getattr self (amounts_pct_name (other_side side))"
  have new: "getattr self' (amounts_pct_name (other_side side)) =
               map (\<lambda>amt. round_double (amt / float_sum ?old)) ?old"
    by (cases side) (simp_all add: normalize_amounts_float_success [OF n])
  moreover have "getattr self' (amounts_pct_name (other_side side)) = ?old"
    if "float_sum ?old = 1 \<and> list_all is_double ?old"
    using that new redivide_by_one [of ?old] by simp
  moreover have "getattr self' (spreads_name (other_side side)) =
           getattr self (spreads_name (other_side side))"
    by (cases side) (simp_all add: normalize_amounts_float_success [OF n])
  moreover have "total_amount_quote self' = total_amount_quote self \<and>
         executor_refresh_time self' = executor_refresh_time self \<and>
         cooldown_time self' = cooldown_time self \<and>
         leverage self' = leverage self \<and>
         position_mode self' = position_mode self \<and>
         closed_executors_buffer self' = closed_executors_buffer self \<and>
         id_config self' = id_config self \<and> connector_name self' = connector_name self \<and>
         trading_pair self' = trading_pair self"
    by (cases side) (simp_all add: normalize_amounts_float_success [OF n])
  ultimately show ?thesis by blast
qed

lemma update_scenario_float:
  "update_parameters_float py_float scenario_config SELL (SpreadsList [1 / 64]) None =
     (None, scenario_config\<lparr>sell_spreads := [1 / 64], sell_amounts_pct := [1]\<rparr>)"
  by (simp add: update_parameters_float_def parse_spreads_def normalize_amounts_float_cases
      float_sum_def float_add_def scenario_config_def Let_def)
    (simp_all add: double_defs)

lemma build_weighted:
  "build_config_float py_float weighted_input = Inr weighted_config"
  by (simp add: build_config_float_def validate_fields_def weighted_input_def
      weighted_config_def parse_spreads_def parse_and_validate_amounts_def
      normalize_amounts_float_cases float_sum_def float_add_def scalars_def Let_def)
    (simp_all add: double_defs)

lemma update_weighted:
  "update_parameters_float py_float weighted_config SELL (SpreadsList [1 / 64]) None =
     (None, weighted_config
        \<lparr>sell_spreads := [1 / 64], sell_amounts_pct := [1],
         buy_amounts_pct :=
           [6550690367084359 / 2 ^ 57, 3070636109570793 / 2 ^ 52,
            4913017775313269 / 2 ^ 54]\<rparr>)"
  by (simp add: update_parameters_float_def parse_spreads_def normalize_amounts_float_cases
      float_sum_def float_add_def weighted_config_def Let_def)
    (simp_all add: double_defs)

lemma float_sum_halves: "float_sum [1 / 2, 1 / 2] = 1"
  by (simp add: float_sum_def float_add_def) (simp add: double_defs)

lemma halves_are_double: "list_all is_double [1 / 2, 1 / 2]"
  by (simp add: is_double_def) (simp add: double_defs)

text \<open>
  The scenario's configuration has two buy fractions 0.5, whose float sum is 1: an update
  of the sell side leaves the buy side as it was.
\<close>

theorem update_parameters_float_frame_witness:
  "update_parameters_float no_float scenario_config SELL (SpreadsList [1 / 64]) None =
     (None, scenario_config\<lparr>sell_spreads := [1 / 64], sell_amounts_pct := [1]\<rparr>) \<and>
   other_side SELL = BUY \<and>
   float_sum (buy_amounts_pct scenario_config) = 1 \<and>
   list_all is_double (buy_amounts_pct scenario_config) \<and>
   buy_amounts_pct (scenario_config\<lparr>sell_spreads := [1 / 64], sell_amounts_pct := [1]\<rparr>) =
     buy_amounts_pct scenario_config \<and>
   buy_spreads (scenario_config\<lparr>sell_spreads := [1 / 64], sell_amounts_pct := [1]\<rparr>) =
     buy_spreads scenario_config"
proof -
  have s: "float_sum (buy_amounts_pct scenario_config) = 1"
    by (simp add: scenario_config_def float_sum_halves)
  have d: "list_all is_double (buy_amounts_pct scenario_config)"
    using halves_are_double by (simp add: scenario_config_def)
  from update_parameters_float_frame [OF update_scenario_float [of no_float]] s d
  show ?thesis
    by (simp add: update_scenario_float)
qed

text \<open>
  C6, as stated, fails. The configuration built from the buy weights 1, 15 and 6 has buy
  fractions whose float sum is \<open>0.9999999999999999\<close>; this is also the double nearest to
  their exact sum, so it does not depend on how \<^verbatim>\<open>sum\<close> rounds on the way. A successful
  update of the sell side divides them by this sum: they become \<open>0.04545454545454546\<close>,
  \<open>0.6818181818181819\<close> and \<open>0.27272727272727276\<close>, each the double next above the old
  one.
\<close>

theorem other_side_amounts_change:
  "build_config_float no_float weighted_input = Inr weighted_config \<and>
   float_sum (buy_amounts_pct weighted_config) = 9007199254740991 / 2 ^ 53 \<and>
   round_double (sum_list (buy_amounts_pct weighted_config)) = 9007199254740991 / 2 ^ 53 \<and>
   update_parameters_float no_float weighted_config SELL (SpreadsList [1 / 64]) None =
     (None, weighted_config
        \<lparr>sell_spreads := [1 / 64], sell_amounts_pct := [1],
         buy_amounts_pct :=
           [6550690367084359 / 2 ^ 57, 3070636109570793 / 2 ^ 52,
            4913017775313269 / 2 ^ 54]\<rparr>) \<and>
   buy_amounts_pct
     (weighted_config
        \<lparr>sell_spreads := [1 / 64], sell_amounts_pct := [1],
         buy_amounts_pct :=
           [6550690367084359 / 2 ^ 57, 3070636109570793 / 2 ^ 52,
            4913017775313269 / 2 ^ 54]\<rparr>) \<noteq>
     buy_amounts_pct weighted_config"
proof -
  have "float_sum (buy_amounts_pct weighted_config) = 9007199254740991 / 2 ^ 53"
    by (simp add: weighted_config_def float_sum_def float_add_def) (simp add: double_defs)
  moreover
  have "round_double (sum_list (buy_amounts_pct weighted_config)) = 9007199254740991 / 2 ^ 53"
    by (simp add: weighted_config_def) (simp add: double_defs)
  moreover have "buy_amounts_pct
     (weighted_config
        \<lparr>sell_spreads := [1 / 64], sell_amounts_pct := [1],
         buy_amounts_pct :=
           [6550690367084359 / 2 ^ 57, 3070636109570793 / 2 ^ 52,
            4913017775313269 / 2 ^ 54]\<rparr>) \<noteq>
     buy_amounts_pct weighted_config"
    by (simp add: weighted_config_def)
  ultimately show ?thesis
    by (simp add: build_weighted update_weighted)
qed

end
